theory Spec2Isabelle
  imports Main
begin

section \<open>Strings and dates\<close>

text \<open>
  Python strings are modelled as \<open>string\<close>, one \<open>char\<close> per code point below 256.
  \<open>str.strip()\<close> removes the characters for which \<open>str.isspace\<close> holds from both
  ends; below 256 these are the code points 9 to 13, 28 to 32, 133 and 160.
\<close>

definition is_space :: "char \<Rightarrow> bool" where
  "is_space c = (let n = (of_char c :: nat) in
     (9 \<le> n \<and> n \<le> 13) \<or> (28 \<le> n \<and> n \<le> 32) \<or> n = 133 \<or> n = 160)"

definition strip :: "string \<Rightarrow> string" where
  "strip s = rev (dropWhile is_space (rev (dropWhile is_space s)))"

text \<open>\<open>x or ""\<close> for a nullable string column.\<close>

definition str_or_empty :: "string option \<Rightarrow> string" where
  "str_or_empty v = (case v of None \<Rightarrow> [] | Some s \<Rightarrow> s)"

text \<open>
  A \<open>datetime.date\<close> is year, month and day; dates compare in that order. A
  \<open>datetime.datetime\<close> adds the time of day, here in microseconds since midnight.
\<close>

record date =
  d_year :: nat
  d_month :: nat
  d_day :: nat

definition date_le :: "date \<Rightarrow> date \<Rightarrow> bool" where
  "date_le a b =
     (d_year a < d_year b \<or>
      (d_year a = d_year b \<and>
        (d_month a < d_month b \<or> (d_month a = d_month b \<and> d_day a \<le> d_day b))))"

record datetime =
  dt_date :: date
  dt_time :: nat

definition datetime_le :: "datetime \<Rightarrow> datetime \<Rightarrow> bool" where
  "datetime_le a b =
     (if dt_date a = dt_date b then dt_time a \<le> dt_time b else date_le (dt_date a) (dt_date b))"

definition datetime_lt :: "datetime \<Rightarrow> datetime \<Rightarrow> bool" where
  "datetime_lt a b = (datetime_le a b \<and> a \<noteq> b)"

text \<open>\<open>datetime(ano, mes, 1)\<close>: midnight of the first day of the month.\<close>

definition first_of_month :: "nat \<Rightarrow> nat \<Rightarrow> datetime" where
  "first_of_month y m = \<lparr>dt_date = \<lparr>d_year = y, d_month = m, d_day = 1\<rparr>, dt_time = 0\<rparr>"

section \<open>Python's \<open>Decimal\<close> at the default context\<close>

text \<open>
  The services compute with \<open>decimal.Decimal\<close> and never touch the arithmetic context,
  so every operation runs at the default one: precision 28, rounding half-even. A finite
  \<open>Decimal\<close> is a sign, a coefficient and an exponent (\<open>_sign\<close>, \<open>_int\<close>, \<open>_exp\<close>);
  its value is \<open>\<plusminus> dint * 10 ^ dexp\<close>. The exponent limits of the context
  (\<open>Emax = 999999\<close>) lie far beyond any value built from column data and are not
  modelled.
\<close>

datatype error = ValueError | DivisionByZero | InvalidOperation

record decimal =
  dsign :: bool
  dint :: nat
  dexp :: int

definition prec :: nat where
  "prec = 28"

text \<open>\<open>len(self._int)\<close>: the number of decimal digits of the coefficient.\<close>

fun ndigits :: "nat \<Rightarrow> nat" where
  "ndigits n = (if n < 10 then 1 else Suc (ndigits (n div 10)))"

declare ndigits.simps [simp del]

text \<open>\<open>Decimal(0)\<close>.\<close>

definition dec_zero :: decimal where
  "dec_zero = \<lparr>dsign = False, dint = 0, dexp = 0\<rparr>"

text \<open>
  \<open>Decimal._fix\<close>: a coefficient of more than \<open>prec\<close> digits is cut to its leading
  \<open>prec\<close> digits, rounded half-even on what is dropped; a carry out of the top digit
  drops one more digit.
\<close>

definition dec_fix :: "decimal \<Rightarrow> decimal" where
  "dec_fix d =
     (if dint d = 0 then d
      else if prec < ndigits (dint d) then
        (let k = ndigits (dint d) - prec;
             exp_min = dexp d + int k;
             q = dint d div 10 ^ k;
             r = dint d mod 10 ^ k;
             half = 5 * 10 ^ (k - 1);
             coeff = (if half < r \<or> (r = half \<and> odd q) then q + 1 else q)
         in if prec < ndigits coeff
            then \<lparr>dsign = dsign d, dint = coeff div 10, dexp = exp_min + 1\<rparr>
            else \<lparr>dsign = dsign d, dint = coeff, dexp = exp_min\<rparr>)
      else d)"

text \<open>The exact product and sum, before \<open>_fix\<close> is applied to them.\<close>

definition dec_mul_exact :: "decimal \<Rightarrow> decimal \<Rightarrow> decimal" where
  "dec_mul_exact a b =
     \<lparr>dsign = (dsign a \<noteq> dsign b), dint = dint a * dint b, dexp = dexp a + dexp b\<rparr>"

definition dec_mul :: "decimal \<Rightarrow> decimal \<Rightarrow> decimal" where
  "dec_mul a b = dec_fix (dec_mul_exact a b)"

text \<open>The signed coefficient of a decimal written at exponent \<open>e\<close> (\<open>e \<le> dexp d\<close>).\<close>

definition dec_scaled :: "decimal \<Rightarrow> int \<Rightarrow> int" where
  "dec_scaled d e = (if dsign d then - 1 else 1) * int (dint d) * 10 ^ nat (dexp d - e)"

definition dec_add_exact :: "decimal \<Rightarrow> decimal \<Rightarrow> decimal" where
  "dec_add_exact a b =
     (let e = min (dexp a) (dexp b);
          v = dec_scaled a e + dec_scaled b e
      in \<lparr>dsign = (if v = 0 then dsign a \<and> dsign b else v < 0), dint = nat \<bar>v\<bar>, dexp = e\<rparr>)"

definition dec_add :: "decimal \<Rightarrow> decimal \<Rightarrow> decimal" where
  "dec_add a b = dec_fix (dec_add_exact a b)"

definition dec_neg :: "decimal \<Rightarrow> decimal" where
  "dec_neg a = a\<lparr>dsign := \<not> dsign a\<rparr>"

definition dec_sub :: "decimal \<Rightarrow> decimal \<Rightarrow> decimal" where
  "dec_sub a b = dec_add a (dec_neg b)"

text \<open>Comparisons are by value.\<close>

definition dec_le :: "decimal \<Rightarrow> decimal \<Rightarrow> bool" where
  "dec_le a b = (let e = min (dexp a) (dexp b) in dec_scaled a e \<le> dec_scaled b e)"

definition dec_lt :: "decimal \<Rightarrow> decimal \<Rightarrow> bool" where
  "dec_lt a b = (let e = min (dexp a) (dexp b) in dec_scaled a e < dec_scaled b e)"

definition dec_eq :: "decimal \<Rightarrow> decimal \<Rightarrow> bool" where
  "dec_eq a b = (let e = min (dexp a) (dexp b) in dec_scaled a e = dec_scaled b e)"

text \<open>
  The loop of \<open>__truediv__\<close> for an exact quotient: trailing zeros are removed while the
  exponent is below the ideal one.
\<close>

function div_strip :: "nat \<Rightarrow> int \<Rightarrow> int \<Rightarrow> nat \<times> int" where
  "div_strip coeff e ideal =
     (if e < ideal \<and> coeff mod 10 = 0 then div_strip (coeff div 10) (e + 1) ideal
      else (coeff, e))"
  by pat_completeness auto
termination
  by (relation "measure (\<lambda>(c, e, i). nat (i - e))") auto

declare div_strip.simps [simp del]

text \<open>
  \<open>Decimal.__truediv__\<close>: the quotient is computed to \<open>prec + 1\<close> digits, an inexact one
  is made sticky in its last digit, and \<open>_fix\<close> rounds it.
\<close>

definition dec_div :: "decimal \<Rightarrow> decimal \<Rightarrow> error + decimal" where
  "dec_div a b =
     (if dint b = 0 then (if dint a = 0 then Inl InvalidOperation else Inl DivisionByZero)
      else if dint a = 0
        then Inr (dec_fix \<lparr>dsign = (dsign a \<noteq> dsign b), dint = 0, dexp = dexp a - dexp b\<rparr>)
      else
        (let shift = int (ndigits (dint b)) - int (ndigits (dint a)) + int prec + 1;
             e = dexp a - dexp b - shift;
             num = (if 0 \<le> shift then dint a * 10 ^ nat shift else dint a);
             den = (if 0 \<le> shift then dint b else dint b * 10 ^ nat (- shift));
             q = num div den;
             ce = (if num mod den \<noteq> 0 then (if q mod 5 = 0 then q + 1 else q, e)
                   else div_strip q e (dexp a - dexp b))
         in Inr (dec_fix \<lparr>dsign = (dsign a \<noteq> dsign b), dint = fst ce, dexp = snd ce\<rparr>)))"

text \<open>
  \<open>Decimal(x or 0)\<close>: a \<open>None\<close> and a zero of any exponent both become \<open>Decimal(0)\<close>.
\<close>

definition or_zero :: "decimal \<Rightarrow> decimal" where
  "or_zero d = (if dint d = 0 then dec_zero else d)"

definition opt_or_zero :: "decimal option \<Rightarrow> decimal" where
  "opt_or_zero v = (case v of None \<Rightarrow> dec_zero | Some d \<Rightarrow> or_zero d)"

section \<open>Validity catalog and item classifier (rules\_engine.py)\<close>

text \<open>A row of \<open>NCMMonofasico\<close> (models.py); only the columns the lookup reads.\<close>

record ncm_monofasico =
  nm_ncm :: string
  data_inicio_vigencia :: date
  data_fim_vigencia :: "date option"
  flag_monofasico :: bool

text \<open>
  A row of \<open>ItemNota\<close>. The two CST columns are optional because the classifier itself
  guards them with \<open>or ""\<close>.
\<close>

record item_nota =
  item_id :: nat
  ncm :: string
  cst_pis :: "string option"
  cst_cofins :: "string option"
  valor_total :: decimal
  eh_monofasico :: bool
  eh_inconsistente :: bool

text \<open>The filter of the query in \<open>_ncm_esta_em_vigencia\<close>, on one row.\<close>

definition ncm_vigente_row :: "string \<Rightarrow> date \<Rightarrow> ncm_monofasico \<Rightarrow> bool" where
  "ncm_vigente_row cod data_referencia e =
     (nm_ncm e = cod \<and> flag_monofasico e \<and>
      date_le (data_inicio_vigencia e) data_referencia \<and>
      (case data_fim_vigencia e of None \<Rightarrow> True | Some f \<Rightarrow> date_le data_referencia f))"

text \<open>\<open>_ncm_esta_em_vigencia\<close>: \<open>.first()\<close> of the filtered table is not \<open>None\<close>.\<close>

definition ncm_esta_em_vigencia :: "ncm_monofasico list \<Rightarrow> string \<Rightarrow> date \<Rightarrow> bool" where
  "ncm_esta_em_vigencia tabela cod data_referencia =
     (find (ncm_vigente_row cod data_referencia) tabela \<noteq> None)"

definition possui_cst_04 :: "item_nota \<Rightarrow> bool" where
  "possui_cst_04 item =
     (strip (str_or_empty (cst_pis item)) = ''04'' \<or> strip (str_or_empty (cst_cofins item)) = ''04'')"

text \<open>
  \<open>classificar_item\<close>: resets both flags, then follows the \<open>if\<close>/\<open>elif\<close> chain of the
  source in its order.
\<close>

definition classificar_item :: "item_nota \<Rightarrow> bool \<Rightarrow> item_nota" where
  "classificar_item item ncm_monof =
     (let item0 = item\<lparr>eh_monofasico := False, eh_inconsistente := False\<rparr> in
      if ncm_monof \<and> possui_cst_04 item then item0\<lparr>eh_monofasico := True\<rparr>
      else if ncm_monof \<and> \<not> possui_cst_04 item then item0\<lparr>eh_inconsistente := True\<rparr>
      else if \<not> ncm_monof \<and> possui_cst_04 item then item0\<lparr>eh_inconsistente := True\<rparr>
      else item0)"

text \<open>
  The body of the inner loop of \<open>classificar_itens_empresa_competencia\<close> for one item:
  the catalog lookup at the invoice date, then the classification.
\<close>

definition classify :: "ncm_monofasico list \<Rightarrow> item_nota \<Rightarrow> date \<Rightarrow> item_nota" where
  "classify tabela item data_ref =
     classificar_item item (ncm_esta_em_vigencia tabela (ncm item) data_ref)"

text \<open>
  The three outcomes of the specification are read off the two flags: exempt is
  \<open>(True, False)\<close>, inconsistent is \<open>(False, True)\<close>, ordinary is \<open>(False, False)\<close>.
\<close>

datatype outcome = Exempt | Inconsistent | Ordinary

definition spec_outcome_of_flags :: "item_nota \<Rightarrow> outcome option" where
  "spec_outcome_of_flags item =
     (if eh_monofasico item \<and> \<not> eh_inconsistente item then Some Exempt
      else if \<not> eh_monofasico item \<and> eh_inconsistente item then Some Inconsistent
      else if \<not> eh_monofasico item \<and> \<not> eh_inconsistente item then Some Ordinary
      else None)"

section \<open>Tables (models.py)\<close>

text \<open>
  Each table is the list of its rows in storage order, so that \<open>.first()\<close> is the first
  row that passes the filter. Only the columns the services read or write appear. An
  \<open>Empresa\<close> is used through its \<open>id\<close> alone. Columns that the services guard with
  \<open>or 0\<close> hold a decimal; the nullable ones hold a \<open>decimal option\<close>.
\<close>

record nota_fiscal =
  nota_id :: nat
  nf_empresa_id :: nat
  data_emissao :: datetime
  itens :: "item_nota list"

record competencia_pgdas =
  comp_id :: nat
  comp_empresa_id :: nat
  ano_mes :: string
  anexo :: string
  receita_monofasica_declarada :: decimal
  receita_bruta_12m :: decimal
  aliquota_nominal :: "decimal option"
  parcela_a_deduzir :: "decimal option"
  aliquota_efetiva :: "decimal option"

record anexo_aliquota =
  aa_anexo :: string
  receita_bruta_min :: decimal
  receita_bruta_max :: decimal
  percentual_pis :: decimal
  percentual_cofins :: decimal

record resultado_auditoria =
  res_id :: nat
  res_empresa_id :: nat
  competencia_id :: nat
  base_monofasica_xml :: decimal
  base_monofasica_pgdas :: decimal
  diferenca_base :: decimal
  pis_indev :: "decimal option"
  cofins_indev :: "decimal option"
  total_indev :: "decimal option"

record db =
  ncm_monofasicos :: "ncm_monofasico list"
  notas_fiscais :: "nota_fiscal list"
  competencias_pgdas :: "competencia_pgdas list"
  anexos_aliquotas :: "anexo_aliquota list"
  resultados_auditoria :: "resultado_auditoria list"

text \<open>Writing a changed row back at commit: the row with the same key is replaced.\<close>

definition update_resultado :: "db \<Rightarrow> resultado_auditoria \<Rightarrow> db" where
  "update_resultado d r =
     d\<lparr>resultados_auditoria :=
          map (\<lambda>x. if res_id x = res_id r then r else x) (resultados_auditoria d)\<rparr>"

definition update_competencia :: "db \<Rightarrow> competencia_pgdas \<Rightarrow> db" where
  "update_competencia d c =
     d\<lparr>competencias_pgdas :=
          map (\<lambda>x. if comp_id x = comp_id c then c else x) (competencias_pgdas d)\<rparr>"

section \<open>Period tokens and the classification pass (rules\_engine.py)\<close>

text \<open>\<open>str.split("-")\<close>.\<close>

fun split_on :: "char \<Rightarrow> string \<Rightarrow> string list" where
  "split_on sep [] = [[]]"
| "split_on sep (c # cs) =
     (if c = sep then [] # split_on sep cs
      else (case split_on sep cs of [] \<Rightarrow> [[c]] | p # ps \<Rightarrow> (c # p) # ps))"

definition is_digit :: "char \<Rightarrow> bool" where
  "is_digit c = (48 \<le> (of_char c :: nat) \<and> (of_char c :: nat) \<le> 57)"

definition digit_val :: "char \<Rightarrow> nat" where
  "digit_val c = of_char c - 48"

text \<open>
  \<open>int(s)\<close> for a string: blanks around the literal are dropped, one sign may lead, and
  single underscores may stand between digits. \<open>None\<close> is the \<open>ValueError\<close>. The blanks
  of \<open>int\<close> are fewer than those of \<open>str.strip\<close>: the ASCII ones are the code points 9
  to 13 and 32 only (28 to 31 are refused), and beyond ASCII the spaces 133 and 160 count
  as blanks. A literal of more than 4300 digits is refused as well (the limit of CPython
  3.11 on the conversion of strings to integers).
\<close>

definition is_space_int :: "char \<Rightarrow> bool" where
  "is_space_int c = (let n = (of_char c :: nat) in (9 \<le> n \<and> n \<le> 13) \<or> n = 32 \<or> n = 133 \<or> n = 160)"

definition strip_int :: "string \<Rightarrow> string" where
  "strip_int s = rev (dropWhile is_space_int (rev (dropWhile is_space_int s)))"

fun int_digits :: "string \<Rightarrow> nat \<Rightarrow> nat option" where
  "int_digits [] acc = Some acc"
| "int_digits (c # cs) acc =
     (if is_digit c then int_digits cs (acc * 10 + digit_val c)
      else if c = CHR ''_'' then
        (case cs of
           [] \<Rightarrow> None
         | d # ds \<Rightarrow> if is_digit d then int_digits ds (acc * 10 + digit_val d) else None)
      else None)"

definition nat_literal :: "string \<Rightarrow> nat option" where
  "nat_literal s =
     (if 4300 < length (filter is_digit s) then None
      else (case s of
              [] \<Rightarrow> None
            | c # cs \<Rightarrow> if is_digit c then int_digits cs (digit_val c) else None))"

definition py_int :: "string \<Rightarrow> int option" where
  "py_int s =
     (case strip_int s of
        [] \<Rightarrow> None
      | c # cs \<Rightarrow>
          if c = CHR ''-'' then map_option (\<lambda>n. - int n) (nat_literal cs)
          else if c = CHR ''+'' then map_option int (nat_literal cs)
          else map_option int (nat_literal (c # cs)))"

text \<open>\<open>datetime(year, month, 1)\<close> raises \<open>ValueError\<close> outside these ranges.\<close>

definition valid_year_month :: "int \<Rightarrow> int \<Rightarrow> bool" where
  "valid_year_month y m = (1 \<le> y \<and> y \<le> 9999 \<and> 1 \<le> m \<and> m \<le> 12)"

text \<open>
  \<open>_intervalo_datas_competencia\<close>: the first instant of the month and of the next one.
  Every failure of the source (a token that does not split in two, a part that is no
  integer, a month or year out of range) is a \<open>ValueError\<close>.
\<close>

definition intervalo_datas_competencia :: "string \<Rightarrow> error + (datetime \<times> datetime)" where
  "intervalo_datas_competencia am =
     (case split_on CHR ''-'' am of
        [a, m] \<Rightarrow>
          (case py_int a of
             None \<Rightarrow> Inl ValueError
           | Some ano \<Rightarrow>
               (case py_int m of
                  None \<Rightarrow> Inl ValueError
                | Some mes \<Rightarrow>
                    if \<not> valid_year_month ano mes then Inl ValueError
                    else if mes = 12 then
                      (if valid_year_month (ano + 1) 1
                       then Inr (first_of_month (nat ano) (nat mes), first_of_month (nat (ano + 1)) 1)
                       else Inl ValueError)
                    else Inr (first_of_month (nat ano) (nat mes),
                              first_of_month (nat ano) (nat (mes + 1)))))
      | _ \<Rightarrow> Inl ValueError)"

text \<open>The filter shared by the two queries over the invoices of a period.\<close>

definition nota_na_competencia :: "nat \<Rightarrow> datetime \<Rightarrow> datetime \<Rightarrow> nota_fiscal \<Rightarrow> bool" where
  "nota_na_competencia empresa data_inicio data_fim n =
     (nf_empresa_id n = empresa \<and> datetime_le data_inicio (data_emissao n) \<and>
      datetime_lt (data_emissao n) data_fim)"

text \<open>
  \<open>classificar_itens_empresa_competencia\<close>: every item of every invoice of the period
  is classified at the date of its invoice; the flags are committed and the number of
  items is returned.
\<close>

definition classificar_nota :: "ncm_monofasico list \<Rightarrow> nota_fiscal \<Rightarrow> nota_fiscal" where
  "classificar_nota tabela n =
     n\<lparr>itens := map (\<lambda>item. classify tabela item (dt_date (data_emissao n))) (itens n)\<rparr>"

definition classificar_itens_empresa_competencia ::
    "db \<Rightarrow> nat \<Rightarrow> string \<Rightarrow> error + (db \<times> nat)" where
  "classificar_itens_empresa_competencia d empresa am =
     (case intervalo_datas_competencia am of
        Inl e \<Rightarrow> Inl e
      | Inr (data_inicio, data_fim) \<Rightarrow>
          Inr (d\<lparr>notas_fiscais :=
                   map (\<lambda>n. if nota_na_competencia empresa data_inicio data_fim n
                             then classificar_nota (ncm_monofasicos d) n else n)
                       (notas_fiscais d)\<rparr>,
               sum_list (map (\<lambda>n. length (itens n))
                  (filter (nota_na_competencia empresa data_inicio data_fim) (notas_fiscais d)))))"

text \<open>
  \<open>calcular_base_monofasica_xml\<close>: \<open>coalesce(sum(valor_total), 0)\<close> over the items of the
  period flagged exempt, passed to \<open>Decimal(...)\<close>. The aggregate is evaluated by the
  storage engine and converted by its driver, none of which is in the repository: it is
  the parameter \<open>soma_sql\<close>, from the summed column values to the \<open>Decimal\<close> the function
  returns.
\<close>

definition calcular_base_monofasica_xml ::
    "(decimal list \<Rightarrow> decimal) \<Rightarrow> db \<Rightarrow> nat \<Rightarrow> string \<Rightarrow> error + decimal" where
  "calcular_base_monofasica_xml soma_sql d empresa am =
     (case intervalo_datas_competencia am of
        Inl e \<Rightarrow> Inl e
      | Inr (data_inicio, data_fim) \<Rightarrow>
          Inr (soma_sql
                 (map valor_total
                    (filter eh_monofasico
                       (concat (map itens
                          (filter (nota_na_competencia empresa data_inicio data_fim)
                             (notas_fiscais d))))))))"

section \<open>Reconciliation (comparison.py)\<close>

text \<open>The key the storage engine gives a new row: one more than the largest in use.\<close>

definition next_res_id :: "resultado_auditoria list \<Rightarrow> nat" where
  "next_res_id rs = Suc (fold max (map res_id rs) 0)"

text \<open>
  \<open>get_or_create_resultado_auditoria\<close>: the existing row for the company and the period,
  or a new one, added and flushed. The constructor is given the two bases and the
  difference; the three impact columns are not passed and stay \<open>None\<close>.
\<close>

definition get_or_create_resultado_auditoria ::
    "db \<Rightarrow> nat \<Rightarrow> competencia_pgdas \<Rightarrow> db \<times> resultado_auditoria" where
  "get_or_create_resultado_auditoria d empresa competencia =
     (case find (\<lambda>r. res_empresa_id r = empresa \<and> competencia_id r = comp_id competencia)
             (resultados_auditoria d) of
        Some existente \<Rightarrow> (d, existente)
      | None \<Rightarrow>
          (let novo = \<lparr>res_id = next_res_id (resultados_auditoria d),
                       res_empresa_id = empresa,
                       competencia_id = comp_id competencia,
                       base_monofasica_xml = dec_zero,
                       base_monofasica_pgdas = dec_zero,
                       diferenca_base = dec_zero,
                       pis_indev = None,
                       cofins_indev = None,
                       total_indev = None\<rparr>
           in (d\<lparr>resultados_auditoria := resultados_auditoria d @ [novo]\<rparr>, novo)))"

text \<open>
  \<open>cruzar_competencia\<close>: \<open>None\<close> when the company has no declaration for the period;
  otherwise the two bases and their difference are written to the summary row.
\<close>

definition cruzar_competencia ::
    "(decimal list \<Rightarrow> decimal) \<Rightarrow> db \<Rightarrow> nat \<Rightarrow> string
       \<Rightarrow> error + (db \<times> resultado_auditoria option)" where
  "cruzar_competencia soma_sql d empresa am =
     (case find (\<lambda>c. comp_empresa_id c = empresa \<and> ano_mes c = am) (competencias_pgdas d) of
        None \<Rightarrow> Inr (d, None)
      | Some competencia \<Rightarrow>
          (case calcular_base_monofasica_xml soma_sql d empresa am of
             Inl e \<Rightarrow> Inl e
           | Inr base_xml \<Rightarrow>
               (let base_pgdas_decimal = or_zero (receita_monofasica_declarada competencia);
                    diferenca = dec_sub base_xml base_pgdas_decimal;
                    (d1, resultado) = get_or_create_resultado_auditoria d empresa competencia;
                    resultado' = resultado\<lparr>base_monofasica_xml := base_xml,
                                             base_monofasica_pgdas := base_pgdas_decimal,
                                             diferenca_base := diferenca\<rparr>
                in Inr (update_resultado d1 resultado', Some resultado'))))"

section \<open>Rate resolution and estimation (calculator.py)\<close>

text \<open>
  \<open>obter_anexo_aliquota_para_competencia\<close>: the first bracket of the period's annex whose
  inclusive range holds the trailing revenue.
\<close>

definition obter_anexo_aliquota_para_competencia ::
    "db \<Rightarrow> competencia_pgdas \<Rightarrow> anexo_aliquota option" where
  "obter_anexo_aliquota_para_competencia d competencia =
     (let receita_12m = or_zero (receita_bruta_12m competencia)
      in find (\<lambda>a. aa_anexo a = anexo competencia \<and>
                    dec_le (receita_bruta_min a) receita_12m \<and>
                    dec_le receita_12m (receita_bruta_max a))
              (anexos_aliquotas d))"

text \<open>
  \<open>garantir_aliquota_efetiva\<close>: a stored rate is returned as it is. Otherwise the rate
  is zero for a zero trailing revenue and
  \<open>(receita_12m * aliquota_nominal - parcela_a_deduzir) / receita_12m\<close> else; it is
  stored on the period, committed and returned. The result carries the new tables, the
  period as the caller now sees it, and the rate.
\<close>

definition garantir_aliquota_efetiva ::
    "db \<Rightarrow> competencia_pgdas \<Rightarrow> error + (db \<times> competencia_pgdas \<times> decimal)" where
  "garantir_aliquota_efetiva d competencia =
     (case aliquota_efetiva competencia of
        Some v \<Rightarrow> Inr (d, competencia, v)
      | None \<Rightarrow>
          (let receita_12m = or_zero (receita_bruta_12m competencia) in
           if dec_eq receita_12m dec_zero then
             (let c' = competencia\<lparr>aliquota_efetiva := Some dec_zero\<rparr>
              in Inr (update_competencia d c', c', dec_zero))
           else
             (let nominal = opt_or_zero (aliquota_nominal competencia);
                  parcela_deduzir = opt_or_zero (parcela_a_deduzir competencia)
              in case dec_div (dec_sub (dec_mul receita_12m nominal) parcela_deduzir) receita_12m of
                   Inl e \<Rightarrow> Inl e
                 | Inr efetiva \<Rightarrow>
                     (let c' = competencia\<lparr>aliquota_efetiva := Some efetiva\<rparr>
                      in Inr (update_competencia d c', c', efetiva)))))"

text \<open>
  \<open>calcular_indev_para_resultado\<close>. \<open>resultado.competencia\<close> is the period row whose key
  the summary holds; the source returns the summary untouched when there is none.
\<close>

definition set_indev ::
    "resultado_auditoria \<Rightarrow> decimal option \<Rightarrow> decimal option \<Rightarrow> decimal option
       \<Rightarrow> resultado_auditoria" where
  "set_indev r p c t = r\<lparr>pis_indev := p, cofins_indev := c, total_indev := t\<rparr>"

definition calcular_indev_para_resultado ::
    "db \<Rightarrow> resultado_auditoria \<Rightarrow> error + (db \<times> resultado_auditoria)" where
  "calcular_indev_para_resultado d resultado =
     (case find (\<lambda>c. comp_id c = competencia_id resultado) (competencias_pgdas d) of
        None \<Rightarrow> Inr (d, resultado)
      | Some competencia \<Rightarrow>
          (let diferenca = or_zero (diferenca_base resultado) in
           if dec_le diferenca dec_zero then
             (let r' = set_indev resultado (Some dec_zero) (Some dec_zero) (Some dec_zero)
              in Inr (update_resultado d r', r'))
           else
             (case garantir_aliquota_efetiva d competencia of
                Inl e \<Rightarrow> Inl e
              | Inr (d1, competencia1, efetiva) \<Rightarrow>
                  (case obter_anexo_aliquota_para_competencia d1 competencia1 of
                     None \<Rightarrow>
                       (let r' = set_indev resultado None None None
                        in Inr (update_resultado d1 r', r'))
                   | Some anexo_faixa \<Rightarrow>
                       (let aliquota_pis_efetiva =
                              dec_mul efetiva (or_zero (percentual_pis anexo_faixa));
                            aliquota_cofins_efetiva =
                              dec_mul efetiva (or_zero (percentual_cofins anexo_faixa));
                            pis = dec_mul diferenca aliquota_pis_efetiva;
                            cofins = dec_mul diferenca aliquota_cofins_efetiva;
                            soma = dec_add pis cofins;
                            r' = set_indev resultado (Some pis) (Some cofins) (Some soma)
                        in Inr (update_resultado d1 r', r'))))))"

text \<open>
  \<open>calcular_indev_para_competencia\<close>: the first summary of the company joined to a
  period with the given token, if any.
\<close>

definition calcular_indev_para_competencia ::
    "db \<Rightarrow> nat \<Rightarrow> string \<Rightarrow> error + (db \<times> resultado_auditoria option)" where
  "calcular_indev_para_competencia d empresa am =
     (case find (\<lambda>r. res_empresa_id r = empresa \<and>
                      list_ex (\<lambda>c. comp_id c = competencia_id r \<and> ano_mes c = am)
                        (competencias_pgdas d))
             (resultados_auditoria d) of
        None \<Rightarrow> Inr (d, None)
      | Some resultado \<Rightarrow>
          (case calcular_indev_para_resultado d resultado of
             Inl e \<Rightarrow> Inl e
           | Inr (d', r') \<Rightarrow> Inr (d', Some r')))"

section \<open>The run over a range of periods (routers/uploads.py)\<close>

text \<open>
  \<open>datetime.strptime(s, "%Y-%m")\<close>: four digits, a hyphen, and a month written
  \<open>1[0-2]\<close>, \<open>0[1-9]\<close> or \<open>[1-9]\<close> with nothing after it; year 0 is refused.
\<close>

definition strptime_month :: "string \<Rightarrow> nat option" where
  "strptime_month s =
     (case s of
        [a, b] \<Rightarrow>
          if a = CHR ''1'' \<and> is_digit b \<and> digit_val b \<le> 2 then Some (10 + digit_val b)
          else if a = CHR ''0'' \<and> is_digit b \<and> 1 \<le> digit_val b then Some (digit_val b)
          else None
      | [a] \<Rightarrow> if is_digit a \<and> 1 \<le> digit_val a then Some (digit_val a) else None
      | _ \<Rightarrow> None)"

definition strptime_year_month :: "string \<Rightarrow> error + (nat \<times> nat)" where
  "strptime_year_month s =
     (case s of
        y1 # y2 # y3 # y4 # h # rest \<Rightarrow>
          if is_digit y1 \<and> is_digit y2 \<and> is_digit y3 \<and> is_digit y4 \<and> h = CHR ''-'' then
            (case strptime_month rest of
               None \<Rightarrow> Inl ValueError
             | Some m \<Rightarrow>
                 (let y = digit_val y1 * 1000 + digit_val y2 * 100 + digit_val y3 * 10 + digit_val y4
                  in if y = 0 then Inl ValueError else Inr (y, m)))
          else Inl ValueError
      | _ \<Rightarrow> Inl ValueError)"

text \<open>
  \<open>strftime("%Y-%m")\<close>: the month on two digits. The year has four digits from 1000 on;
  below, the C library decides: glibc writes it without leading zeros (\<open>999-01\<close>), other
  libraries pad it to four digits. \<open>zero_pad\<close> says which library runs.
\<close>

definition digit_char :: "nat \<Rightarrow> char" where
  "digit_char n = char_of (48 + n mod 10)"

definition strftime_year :: "bool \<Rightarrow> nat \<Rightarrow> string" where
  "strftime_year zero_pad y =
     (if zero_pad \<or> 1000 \<le> y
      then [digit_char (y div 1000), digit_char (y div 100), digit_char (y div 10), digit_char y]
      else if 100 \<le> y then [digit_char (y div 100), digit_char (y div 10), digit_char y]
      else if 10 \<le> y then [digit_char (y div 10), digit_char y]
      else [digit_char y])"

definition strftime_year_month :: "bool \<Rightarrow> nat \<Rightarrow> nat \<Rightarrow> string" where
  "strftime_year_month zero_pad y m =
     strftime_year zero_pad y @ [CHR ''-'', digit_char (m div 10), digit_char m]"

text \<open>
  The loop of \<open>_gerar_intervalo_competencias\<close> on the two parsed dates, which differ in
  year and month only. A \<open>datetime\<close> holds a month from 1 to 12, and
  \<open>replace(year=year + 1)\<close> raises \<open>ValueError\<close> past 9999.
\<close>

function gerar_desde :: "bool \<Rightarrow> nat \<Rightarrow> nat \<Rightarrow> nat \<Rightarrow> nat \<Rightarrow> error + string list" where
  "gerar_desde zero_pad y m fy fm =
     (if m < 1 \<or> 12 < m then Inl ValueError
      else if y < fy \<or> (y = fy \<and> m \<le> fm) then
        (if m = 12 then
           (if 9999 < y + 1 then Inl ValueError
            else (case gerar_desde zero_pad (y + 1) 1 fy fm of
                    Inl e \<Rightarrow> Inl e
                  | Inr rest \<Rightarrow> Inr (strftime_year_month zero_pad y m # rest)))
         else (case gerar_desde zero_pad y (m + 1) fy fm of
                 Inl e \<Rightarrow> Inl e
               | Inr rest \<Rightarrow> Inr (strftime_year_month zero_pad y m # rest)))
      else Inr [])"
  by pat_completeness auto
termination
  by (relation "measure (\<lambda>(zero_pad, y, m, fy, fm). (fy * 12 + fm + 13) - (y * 12 + m))") auto

declare gerar_desde.simps [simp del]

definition gerar_intervalo_competencias ::
    "bool \<Rightarrow> string \<Rightarrow> string \<Rightarrow> error + string list" where
  "gerar_intervalo_competencias zero_pad competencia_inicial competencia_final =
     (case strptime_year_month competencia_inicial of
        Inl e \<Rightarrow> Inl e
      | Inr (y, m) \<Rightarrow>
          (case strptime_year_month competencia_final of
             Inl e \<Rightarrow> Inl e
           | Inr (fy, fm) \<Rightarrow> gerar_desde zero_pad y m fy fm))"

text \<open>
  The loop of \<open>processar_auditoria\<close> over the periods: classification, reconciliation,
  estimation, in this order; an exception of any stage ends the run.
\<close>

definition processar_competencia ::
    "(decimal list \<Rightarrow> decimal) \<Rightarrow> db \<Rightarrow> nat \<Rightarrow> string \<Rightarrow> error + db" where
  "processar_competencia soma_sql d empresa am =
     (case classificar_itens_empresa_competencia d empresa am of
        Inl e \<Rightarrow> Inl e
      | Inr (d1, n) \<Rightarrow>
          (case cruzar_competencia soma_sql d1 empresa am of
             Inl e \<Rightarrow> Inl e
           | Inr (d2, r) \<Rightarrow>
               (case calcular_indev_para_competencia d2 empresa am of
                  Inl e \<Rightarrow> Inl e
                | Inr (d3, r') \<Rightarrow> Inr d3)))"

fun processar_competencias ::
    "(decimal list \<Rightarrow> decimal) \<Rightarrow> db \<Rightarrow> nat \<Rightarrow> string list \<Rightarrow> error + db" where
  "processar_competencias soma_sql d empresa [] = Inr d"
| "processar_competencias soma_sql d empresa (am # rest) =
     (case processar_competencia soma_sql d empresa am of
        Inl e \<Rightarrow> Inl e
      | Inr d' \<Rightarrow> processar_competencias soma_sql d' empresa rest)"

definition processar_intervalo ::
    "(decimal list \<Rightarrow> decimal) \<Rightarrow> bool \<Rightarrow> db \<Rightarrow> nat \<Rightarrow> string \<Rightarrow> string \<Rightarrow> error + db" where
  "processar_intervalo soma_sql zero_pad d empresa competencia_inicial competencia_final =
     (case gerar_intervalo_competencias zero_pad competencia_inicial competencia_final of
        Inl e \<Rightarrow> Inl e
      | Inr competencias \<Rightarrow> processar_competencias soma_sql d empresa competencias)"

section \<open>Declaration ingestion (pgdas\_importer.py)\<close>

text \<open>
  A row of \<open>csv.DictReader\<close> is read with \<open>dados.get\<close> only, so it is a partial map
  from column names to texts. The importer stores Python floats; they stay abstract
  here: the numeric columns have a type \<open>'v\<close> with a zero, and Python's \<open>float(texto)\<close>
  is a parameter \<open>float_of\<close> whose \<open>None\<close> is the \<open>ValueError\<close> of a text that is no
  number.
\<close>

type_synonym linha = "string \<rightharpoonup> string"

datatype import_error = ImportValueError | IntegrityError

text \<open>\<open>_parse_decimal\<close>.\<close>

definition parse_decimal ::
    "(string \<Rightarrow> 'v option) \<Rightarrow> string option \<Rightarrow> import_error + 'v option" where
  "parse_decimal float_of valor =
     (case valor of
        None \<Rightarrow> Inr None
      | Some v \<Rightarrow>
          (let texto = strip v in
           if texto = [] then Inr None
           else (case float_of texto of None \<Rightarrow> Inl ImportValueError | Some x \<Rightarrow> Inr (Some x))))"

text \<open>\<open>_parse_decimal(...) or 0.0\<close>.\<close>

definition parse_decimal_or_zero ::
    "(string \<Rightarrow> 'v option) \<Rightarrow> string option \<Rightarrow> import_error + ('v::zero)" where
  "parse_decimal_or_zero float_of valor =
     (case parse_decimal float_of valor of
        Inl e \<Rightarrow> Inl e
      | Inr None \<Rightarrow> Inr 0
      | Inr (Some x) \<Rightarrow> Inr (if x = 0 then 0 else x))"

text \<open>
  A \<open>CompetenciaPGDAS\<close> object as the importer fills it. A new object has no key yet
  and no annex unless the row gives one.
\<close>

record 'v competencia_importada =
  ci_empresa_id :: nat
  ci_ano_mes :: string
  ci_anexo :: "string option"
  ci_receita_bruta_total :: 'v
  ci_receita_monofasica_declarada :: 'v
  ci_receita_substituicao_tributaria :: "'v option"
  ci_receita_outras_exclusoes :: "'v option"
  ci_receita_bruta_12m :: 'v
  ci_aliquota_nominal :: "'v option"
  ci_parcela_a_deduzir :: "'v option"
  ci_aliquota_efetiva :: "'v option"

text \<open>
  The session is created with \<open>autoflush=False\<close>: a query sees the rows of the table,
  with the changes the session made to them, but not the objects that were added and
  not yet flushed.
\<close>

record 'v sessao =
  persistentes :: "'v competencia_importada list"
  novos :: "'v competencia_importada list"

text \<open>
  The assignments of \<open>upsert_competencia_pgdas\<close> in their order; the first text that is
  no number raises.
\<close>

definition atribuir_campos ::
    "(string \<Rightarrow> 'v option) \<Rightarrow> linha \<Rightarrow> 'v competencia_importada
       \<Rightarrow> import_error + ('v::zero) competencia_importada" where
  "atribuir_campos float_of dados c =
     (let anexo' = (case dados ''anexo'' of
                      None \<Rightarrow> ci_anexo c
                    | Some a \<Rightarrow> if a = [] then ci_anexo c else Some a)
      in case parse_decimal_or_zero float_of (dados ''receita_bruta_total'') of
           Inl e \<Rightarrow> Inl e
         | Inr bruta_total \<Rightarrow>
      (case parse_decimal_or_zero float_of (dados ''receita_monofasica_declarada'') of
           Inl e \<Rightarrow> Inl e
         | Inr declarada \<Rightarrow>
      (case parse_decimal float_of (dados ''receita_substituicao_tributaria'') of
           Inl e \<Rightarrow> Inl e
         | Inr substituicao \<Rightarrow>
      (case parse_decimal float_of (dados ''receita_outras_exclusoes'') of
           Inl e \<Rightarrow> Inl e
         | Inr exclusoes \<Rightarrow>
      (case parse_decimal_or_zero float_of (dados ''receita_bruta_12m'') of
           Inl e \<Rightarrow> Inl e
         | Inr bruta_12m \<Rightarrow>
      (case parse_decimal float_of (dados ''aliquota_nominal'') of
           Inl e \<Rightarrow> Inl e
         | Inr nominal \<Rightarrow>
      (case parse_decimal float_of (dados ''parcela_a_deduzir'') of
           Inl e \<Rightarrow> Inl e
         | Inr parcela \<Rightarrow>
      (case parse_decimal float_of (dados ''aliquota_efetiva'') of
           Inl e \<Rightarrow> Inl e
         | Inr efetiva \<Rightarrow>
             Inr (c\<lparr>ci_anexo := anexo',
                    ci_receita_bruta_total := bruta_total,
                    ci_receita_monofasica_declarada := declarada,
                    ci_receita_substituicao_tributaria := substituicao,
                    ci_receita_outras_exclusoes := exclusoes,
                    ci_receita_bruta_12m := bruta_12m,
                    ci_aliquota_nominal := nominal,
                    ci_parcela_a_deduzir := parcela,
                    ci_aliquota_efetiva := efetiva\<rparr>)))))))))"

text \<open>
  \<open>upsert_competencia_pgdas\<close>: \<open>not ano_mes\<close> holds for an absent and for an empty
  token. The first row of the table for the company and the token is updated in
  place; without one a new object is added to the session.
\<close>

fun substituir_primeiro :: "('a \<Rightarrow> bool) \<Rightarrow> 'a \<Rightarrow> 'a list \<Rightarrow> 'a list" where
  "substituir_primeiro P y [] = []"
| "substituir_primeiro P y (x # xs) = (if P x then y # xs else x # substituir_primeiro P y xs)"

definition upsert_competencia_pgdas ::
    "(string \<Rightarrow> 'v option) \<Rightarrow> linha \<Rightarrow> 'v sessao \<Rightarrow> nat \<Rightarrow> import_error + ('v::zero) sessao" where
  "upsert_competencia_pgdas float_of dados s empresa =
     (case dados ''ano_mes'' of
        None \<Rightarrow> Inl ImportValueError
      | Some am \<Rightarrow>
          if am = [] then Inl ImportValueError
          else
            (let mesma = (\<lambda>c. ci_empresa_id c = empresa \<and> ci_ano_mes c = am) in
             case find mesma (persistentes s) of
               Some competencia \<Rightarrow>
                 (case atribuir_campos float_of dados competencia of
                    Inl e \<Rightarrow> Inl e
                  | Inr c' \<Rightarrow> Inr (s\<lparr>persistentes := substituir_primeiro mesma c' (persistentes s)\<rparr>))
             | None \<Rightarrow>
                 (case atribuir_campos float_of dados
                         \<lparr>ci_empresa_id = empresa, ci_ano_mes = am, ci_anexo = None,
                          ci_receita_bruta_total = 0, ci_receita_monofasica_declarada = 0,
                          ci_receita_substituicao_tributaria = None,
                          ci_receita_outras_exclusoes = None, ci_receita_bruta_12m = 0,
                          ci_aliquota_nominal = None, ci_parcela_a_deduzir = None,
                          ci_aliquota_efetiva = None\<rparr> of
                    Inl e \<Rightarrow> Inl e
                  | Inr c' \<Rightarrow> Inr (s\<lparr>novos := novos s @ [c']\<rparr>))))"

text \<open>The loop of \<open>importar_pgdas_csv\<close> over the rows; an exception leaves the loop.\<close>

fun upsert_linhas ::
    "(string \<Rightarrow> 'v option) \<Rightarrow> linha list \<Rightarrow> 'v sessao \<Rightarrow> nat \<Rightarrow> import_error + ('v::zero) sessao" where
  "upsert_linhas float_of [] s empresa = Inr s"
| "upsert_linhas float_of (dados # resto) s empresa =
     (case upsert_competencia_pgdas float_of dados s empresa of
        Inl e \<Rightarrow> Inl e
      | Inr s' \<Rightarrow> upsert_linhas float_of resto s' empresa)"

text \<open>
  \<open>importar_pgdas_csv\<close> on the rows of the file. The result is the table as committed
  when the call ends, and the exception that ended it, if any: the only commit is the
  one after the loop, and it is refused when a new row has no annex (the column is
  \<open>NOT NULL\<close>). The source has no handler; the caller's session is closed, which
  discards what was not committed.
\<close>

definition importar_pgdas_csv ::
    "(string \<Rightarrow> 'v option) \<Rightarrow> linha list \<Rightarrow> ('v::zero) competencia_importada list \<Rightarrow> nat
       \<Rightarrow> 'v competencia_importada list \<times> import_error option" where
  "importar_pgdas_csv float_of linhas tabela empresa =
     (case upsert_linhas float_of linhas \<lparr>persistentes = tabela, novos = []\<rparr> empresa of
        Inl e \<Rightarrow> (tabela, Some e)
      | Inr s \<Rightarrow>
          if list_ex (\<lambda>c. ci_anexo c = None) (novos s) then (tabela, Some IntegrityError)
          else (persistentes s @ novos s, None))"

section \<open>Example data\<close>

text \<open>
  The scenarios of the specification, used to run the theorems on concrete rows: a
  period of January 2024 with a stored effective rate of 0.1000 and a declared exempt
  revenue of 700.00, a bracket of annex I that splits 40\% and 60\%, and a summary with a
  difference of 300.00.
\<close>

definition exemplo_competencia :: competencia_pgdas where
  "exemplo_competencia =
     \<lparr>comp_id = 1, comp_empresa_id = 1, ano_mes = ''2024-01'', anexo = ''I'',
      receita_monofasica_declarada = \<lparr>dsign = False, dint = 70000, dexp = - 2\<rparr>,
      receita_bruta_12m = \<lparr>dsign = False, dint = 18000000, dexp = - 2\<rparr>,
      aliquota_nominal = None, parcela_a_deduzir = None,
      aliquota_efetiva = Some \<lparr>dsign = False, dint = 1000, dexp = - 4\<rparr>\<rparr>"

definition exemplo_anexo :: anexo_aliquota where
  "exemplo_anexo =
     \<lparr>aa_anexo = ''I'',
      receita_bruta_min = \<lparr>dsign = False, dint = 1, dexp = - 2\<rparr>,
      receita_bruta_max = \<lparr>dsign = False, dint = 18000000, dexp = - 2\<rparr>,
      percentual_pis = \<lparr>dsign = False, dint = 4000, dexp = - 4\<rparr>,
      percentual_cofins = \<lparr>dsign = False, dint = 6000, dexp = - 4\<rparr>\<rparr>"

definition exemplo_resultado :: resultado_auditoria where
  "exemplo_resultado =
     \<lparr>res_id = 1, res_empresa_id = 1, competencia_id = 1,
      base_monofasica_xml = \<lparr>dsign = False, dint = 100000, dexp = - 2\<rparr>,
      base_monofasica_pgdas = \<lparr>dsign = False, dint = 70000, dexp = - 2\<rparr>,
      diferenca_base = \<lparr>dsign = False, dint = 30000, dexp = - 2\<rparr>,
      pis_indev = None, cofins_indev = None, total_indev = None\<rparr>"

definition exemplo_db :: db where
  "exemplo_db =
     \<lparr>ncm_monofasicos = [], notas_fiscais = [],
      competencias_pgdas = [exemplo_competencia],
      anexos_aliquotas = [exemplo_anexo],
      resultados_auditoria = [exemplo_resultado]\<rparr>"

section \<open>The flag invariant\<close>

text \<open>
  The invariant of the two flags of a line item, and its extension to every item of
  every invoice of the tables.
\<close>

definition flags_ok :: "item_nota \<Rightarrow> bool" where
  "flags_ok item = (\<not> (eh_monofasico item \<and> eh_inconsistente item))"

definition db_flags_ok :: "db \<Rightarrow> bool" where
  "db_flags_ok d = (\<forall>n\<in>set (notas_fiscais d). \<forall>item\<in>set (itens n). flags_ok item)"

(*DEFS-END*)

section \<open>Properties of the item classifier\<close>

lemma find_neq_None_iff: "(find P xs \<noteq> None) = (\<exists>x\<in>set xs. P x)"
  by (induction xs) auto

lemma ncm_esta_em_vigencia_iff:
  "ncm_esta_em_vigencia tabela cod d =
     (\<exists>e\<in>set tabela. nm_ncm e = cod \<and> flag_monofasico e \<and>
        date_le (data_inicio_vigencia e) d \<and>
        (data_fim_vigencia e = None \<or> (\<exists>f. data_fim_vigencia e = Some f \<and> date_le d f)))"
  unfolding ncm_esta_em_vigencia_def find_neq_None_iff ncm_vigente_row_def
  by (auto split: option.splits)

text \<open>
  C1. For every line item and invoice date, the classification is exempt exactly when an
  active catalog entry for the item's product code has its validity window around the
  date (start \<open>\<le>\<close> date, end absent or \<open>\<ge>\<close> date) and one of the two trimmed
  tax-situation codes is \<open>"04"\<close>; it is inconsistent exactly when one of the two
  conditions holds without the other; it is ordinary otherwise. Absent and empty codes
  do not match. The item comes back with exactly the flag pair of its outcome and no
  other column changed.
\<close>

theorem classify_decision_table:
  fixes tabela :: "ncm_monofasico list" and item :: item_nota and d :: date
  shows
    "(let catalogMatch =
            (\<exists>e\<in>set tabela. nm_ncm e = ncm item \<and> flag_monofasico e \<and>
               date_le (data_inicio_vigencia e) d \<and>
               (data_fim_vigencia e = None \<or> (\<exists>f. data_fim_vigencia e = Some f \<and> date_le d f)));
          specialCodePresent =
            (strip (str_or_empty (cst_pis item)) = ''04'' \<or>
             strip (str_or_empty (cst_cofins item)) = ''04'');
          item' = classify tabela item d
      in (spec_outcome_of_flags item' = Some Exempt \<longleftrightarrow> catalogMatch \<and> specialCodePresent) \<and>
         (spec_outcome_of_flags item' = Some Inconsistent \<longleftrightarrow> catalogMatch \<noteq> specialCodePresent) \<and>
         (spec_outcome_of_flags item' = Some Ordinary \<longleftrightarrow> \<not> catalogMatch \<and> \<not> specialCodePresent) \<and>
         item' = item\<lparr>eh_monofasico := catalogMatch \<and> specialCodePresent,
                       eh_inconsistente := catalogMatch \<noteq> specialCodePresent\<rparr>)"
  unfolding Let_def classify_def ncm_esta_em_vigencia_iff [symmetric]
  by (auto simp: classificar_item_def possui_cst_04_def spec_outcome_of_flags_def Let_def)

text \<open>
  Scenario A of the specification: a catalog entry valid from 2024-01-01 with no end, an
  invoice of 2024-03-15 and the code \<open>"04"\<close> (here with surrounding blanks, the other code
  absent) give an exempt item.
\<close>

theorem classify_decision_table_witness:
  "classify
     [\<lparr>nm_ncm = ''22021000'',
       data_inicio_vigencia = \<lparr>d_year = 2024, d_month = 1, d_day = 1\<rparr>,
       data_fim_vigencia = None, flag_monofasico = True\<rparr>]
     \<lparr>item_id = 1, ncm = ''22021000'', cst_pis = Some '' 04 '', cst_cofins = None,
       valor_total = \<lparr>dsign = False, dint = 1000, dexp = - 2\<rparr>,
       eh_monofasico = False, eh_inconsistente = True\<rparr>
     \<lparr>d_year = 2024, d_month = 3, d_day = 15\<rparr>
   = \<lparr>item_id = 1, ncm = ''22021000'', cst_pis = Some '' 04 '', cst_cofins = None,
       valor_total = \<lparr>dsign = False, dint = 1000, dexp = - 2\<rparr>,
       eh_monofasico = True, eh_inconsistente = False\<rparr>"
  using classify_decision_table
    [of "[\<lparr>nm_ncm = ''22021000'',
           data_inicio_vigencia = \<lparr>d_year = 2024, d_month = 1, d_day = 1\<rparr>,
           data_fim_vigencia = None, flag_monofasico = True\<rparr>]"
        "\<lparr>item_id = 1, ncm = ''22021000'', cst_pis = Some '' 04 '', cst_cofins = None,
           valor_total = \<lparr>dsign = False, dint = 1000, dexp = - 2\<rparr>,
           eh_monofasico = False, eh_inconsistente = True\<rparr>"
        "\<lparr>d_year = 2024, d_month = 3, d_day = 15\<rparr>"]
  by (simp add: Let_def date_le_def strip_def str_or_empty_def is_space_def)

section \<open>Decimal comparisons with zero\<close>

lemma dec_scaled_zero: "dec_scaled dec_zero e = 0"
  by (simp add: dec_scaled_def dec_zero_def)

lemma dec_scaled_le_0: "(dec_scaled x e \<le> 0) = (dint x = 0 \<or> dsign x)"
proof -
  obtain P :: int where P: "P = 10 ^ nat (dexp x - e)" "0 < P" by simp
  show ?thesis
    unfolding dec_scaled_def P(1) [symmetric] using P(2)
    by (cases "dsign x") (auto simp: mult_le_0_iff zero_le_mult_iff)
qed

lemma dec_scaled_ge_0: "(0 \<le> dec_scaled x e) = (dint x = 0 \<or> \<not> dsign x)"
proof -
  obtain P :: int where P: "P = 10 ^ nat (dexp x - e)" "0 < P" by simp
  show ?thesis
    unfolding dec_scaled_def P(1) [symmetric] using P(2)
    by (cases "dsign x") (auto simp: mult_le_0_iff zero_le_mult_iff)
qed

lemma dec_scaled_eq_0: "(dec_scaled x e = 0) = (dint x = 0)"
  by (simp add: dec_scaled_def)

lemma dec_le_zero_iff: "dec_le x dec_zero = (dint x = 0 \<or> dsign x)"
  by (simp add: dec_le_def Let_def dec_scaled_zero dec_scaled_le_0)

lemma dec_zero_le_iff: "dec_le dec_zero x = (dint x = 0 \<or> \<not> dsign x)"
  by (simp add: dec_le_def Let_def dec_scaled_zero dec_scaled_ge_0)

lemma dec_zero_lt_iff: "dec_lt dec_zero x = (dint x \<noteq> 0 \<and> \<not> dsign x)"
proof -
  have "(0 < dec_scaled x e) = (\<not> dec_scaled x e \<le> 0)" for e by auto
  then show ?thesis
    by (simp only: dec_lt_def Let_def dec_scaled_zero dec_scaled_le_0) simp
qed

lemma dec_lt_zero_iff: "dec_lt x dec_zero = (dint x \<noteq> 0 \<and> dsign x)"
proof -
  have "(dec_scaled x e < 0) = (\<not> 0 \<le> dec_scaled x e)" for e by auto
  then show ?thesis
    by (simp only: dec_lt_def Let_def dec_scaled_zero dec_scaled_ge_0) simp
qed

lemma dec_eq_zero_iff: "dec_eq x dec_zero = (dint x = 0)"
  by (simp add: dec_eq_def Let_def dec_scaled_zero dec_scaled_eq_0)

lemma or_zero_nonzero: "dint x \<noteq> 0 \<Longrightarrow> or_zero x = x"
  by (simp add: or_zero_def)

lemma or_zero_is_zero: "dint x = 0 \<Longrightarrow> or_zero x = dec_zero"
  by (simp add: or_zero_def)

lemma dint_or_zero: "dint (or_zero x) = dint x"
  by (simp add: or_zero_def dec_zero_def)

lemma dec_le_or_zero_zero: "dec_le (or_zero x) dec_zero = dec_le x dec_zero"
  by (cases "dint x = 0") (simp_all add: or_zero_def dec_le_zero_iff, simp add: dec_zero_def)

lemma dec_le_or_zero_right: "dec_le a (or_zero x) = dec_le a x"
proof (cases "dint x = 0")
  case True
  then have "dec_le a x = (dint a = 0 \<or> dsign a)"
    by (simp add: dec_le_def Let_def dec_scaled_le_0 dec_scaled_def [of x])
  with True show ?thesis by (simp add: or_zero_def dec_le_zero_iff)
next
  case False
  then show ?thesis by (simp add: or_zero_def)
qed

lemma dec_le_or_zero_left: "dec_le (or_zero x) a = dec_le x a"
proof (cases "dint x = 0")
  case True
  then have "dec_le x a = (dint a = 0 \<or> \<not> dsign a)"
    by (simp add: dec_le_def Let_def dec_scaled_ge_0 dec_scaled_def [of x])
  with True show ?thesis by (simp add: or_zero_def dec_zero_le_iff)
next
  case False
  then show ?thesis by (simp add: or_zero_def)
qed

section \<open>Properties of rate resolution and estimation\<close>

lemma dec_div_defined: "dint b \<noteq> 0 \<Longrightarrow> \<exists>q. dec_div a b = Inr q"
  by (simp add: dec_div_def Let_def)

text \<open>
  Rate resolution never raises: the division is reached with a nonzero divisor only. It
  changes nothing but the stored rate of the period.
\<close>

lemma garantir_aliquota_efetiva_total:
  "\<exists>d' c' v. garantir_aliquota_efetiva d c = Inr (d', c', v) \<and>
      anexos_aliquotas d' = anexos_aliquotas d \<and> anexo c' = anexo c \<and>
      receita_bruta_12m c' = receita_bruta_12m c \<and>
      notas_fiscais d' = notas_fiscais d \<and>
      resultados_auditoria d' = resultados_auditoria d"
proof (cases "aliquota_efetiva c")
  case (Some v)
  then show ?thesis by (simp add: garantir_aliquota_efetiva_def)
next
  case None
  show ?thesis
  proof (cases "dec_eq (or_zero (receita_bruta_12m c)) dec_zero")
    case True
    with None show ?thesis
      by (simp add: garantir_aliquota_efetiva_def Let_def update_competencia_def)
  next
    case False
    then have nz: "dint (or_zero (receita_bruta_12m c)) \<noteq> 0"
      by (simp add: dec_eq_zero_iff)
    from dec_div_defined [OF nz] obtain q where
      "dec_div (dec_sub (dec_mul (or_zero (receita_bruta_12m c)) (opt_or_zero (aliquota_nominal c)))
          (opt_or_zero (parcela_a_deduzir c))) (or_zero (receita_bruta_12m c)) = Inr q"
      by blast
    with None False show ?thesis
      by (simp add: garantir_aliquota_efetiva_def Let_def update_competencia_def)
  qed
qed

text \<open>
  C4. For every audit summary (with its declaration period) whose difference is at most
  zero, the estimation stage sets the three impact fields to \<open>Decimal(0)\<close>, neither null
  nor negative, writes the summary back and returns; no rate is resolved and no bracket
  is looked up, so the table of periods is as before.
\<close>

theorem estimation_zero_without_positive_difference:
  assumes "find (\<lambda>c. comp_id c = competencia_id r) (competencias_pgdas d) = Some c"
    and "dec_le (diferenca_base r) dec_zero"
  shows "calcular_indev_para_resultado d r =
           Inr (update_resultado d
                  (r\<lparr>pis_indev := Some dec_zero, cofins_indev := Some dec_zero,
                      total_indev := Some dec_zero\<rparr>),
                r\<lparr>pis_indev := Some dec_zero, cofins_indev := Some dec_zero,
                   total_indev := Some dec_zero\<rparr>) \<and>
         competencias_pgdas
           (update_resultado d
              (r\<lparr>pis_indev := Some dec_zero, cofins_indev := Some dec_zero,
                  total_indev := Some dec_zero\<rparr>)) = competencias_pgdas d"
  using assms
  by (simp add: calcular_indev_para_resultado_def dec_le_or_zero_zero set_indev_def Let_def
      update_resultado_def)

text \<open>The example summary with a difference of -50.00 instead.\<close>

theorem estimation_zero_without_positive_difference_witness:
  "calcular_indev_para_resultado exemplo_db
     (exemplo_resultado\<lparr>diferenca_base := \<lparr>dsign = True, dint = 5000, dexp = - 2\<rparr>\<rparr>) =
   Inr (exemplo_db\<lparr>resultados_auditoria :=
          [exemplo_resultado\<lparr>diferenca_base := \<lparr>dsign = True, dint = 5000, dexp = - 2\<rparr>,
             pis_indev := Some dec_zero, cofins_indev := Some dec_zero,
             total_indev := Some dec_zero\<rparr>]\<rparr>,
        exemplo_resultado\<lparr>diferenca_base := \<lparr>dsign = True, dint = 5000, dexp = - 2\<rparr>,
          pis_indev := Some dec_zero, cofins_indev := Some dec_zero,
          total_indev := Some dec_zero\<rparr>)"
  using estimation_zero_without_positive_difference
    [where r = "exemplo_resultado\<lparr>diferenca_base := \<lparr>dsign = True, dint = 5000, dexp = - 2\<rparr>\<rparr>"
       and d = exemplo_db and c = exemplo_competencia]
  by (simp add: exemplo_db_def exemplo_resultado_def exemplo_competencia_def
      dec_le_zero_iff update_resultado_def)

text \<open>
  C7. For every declaration period whose effective rate is set, resolving the rate
  returns the stored value and leaves the tables and the period as they are, whatever
  the nominal rate, the deduction parcel and the trailing revenue have become since.
\<close>

theorem effective_rate_memoized:
  assumes "aliquota_efetiva c = Some v"
  shows "garantir_aliquota_efetiva d
           (c\<lparr>aliquota_nominal := n, parcela_a_deduzir := p, receita_bruta_12m := r\<rparr>) =
         Inr (d, c\<lparr>aliquota_nominal := n, parcela_a_deduzir := p, receita_bruta_12m := r\<rparr>, v)"
  using assms by (simp add: garantir_aliquota_efetiva_def)

theorem effective_rate_memoized_witness:
  "garantir_aliquota_efetiva exemplo_db
     (exemplo_competencia\<lparr>aliquota_nominal := Some \<lparr>dsign = False, dint = 730, dexp = - 4\<rparr>,
        parcela_a_deduzir := Some \<lparr>dsign = False, dint = 594000, dexp = - 2\<rparr>,
        receita_bruta_12m := \<lparr>dsign = False, dint = 50000000, dexp = - 2\<rparr>\<rparr>) =
   Inr (exemplo_db,
        exemplo_competencia\<lparr>aliquota_nominal := Some \<lparr>dsign = False, dint = 730, dexp = - 4\<rparr>,
          parcela_a_deduzir := Some \<lparr>dsign = False, dint = 594000, dexp = - 2\<rparr>,
          receita_bruta_12m := \<lparr>dsign = False, dint = 50000000, dexp = - 2\<rparr>\<rparr>,
        \<lparr>dsign = False, dint = 1000, dexp = - 4\<rparr>)"
  using effective_rate_memoized
    [where c = exemplo_competencia and v = "\<lparr>dsign = False, dint = 1000, dexp = - 4\<rparr>"
       and d = exemplo_db
       and n = "Some \<lparr>dsign = False, dint = 730, dexp = - 4\<rparr>"
       and p = "Some \<lparr>dsign = False, dint = 594000, dexp = - 2\<rparr>"
       and r = "\<lparr>dsign = False, dint = 50000000, dexp = - 2\<rparr>"]
  by (simp add: exemplo_competencia_def)

lemma find_None_iff_ball: "(find P xs = None) = (\<forall>x\<in>set xs. \<not> P x)"
  by (induction xs) auto

text \<open>
  C6. When the trailing revenue of a period is zero and no effective rate is stored,
  rate resolution stores and returns \<open>Decimal(0)\<close> and raises nothing. When the
  difference is positive and no bracket of the period's annex has the trailing revenue
  inside its inclusive range, the estimation stage resolves the rate, then sets the three
  impact fields to null and returns.
\<close>

theorem zero_revenue_rate_and_missing_bracket:
  "(aliquota_efetiva c = None \<and> dint (receita_bruta_12m c) = 0 \<longrightarrow>
      garantir_aliquota_efetiva d c =
        Inr (update_competencia d (c\<lparr>aliquota_efetiva := Some dec_zero\<rparr>),
             c\<lparr>aliquota_efetiva := Some dec_zero\<rparr>, dec_zero)) \<and>
   (find (\<lambda>c. comp_id c = competencia_id r) (competencias_pgdas d) = Some c \<and>
    dec_lt dec_zero (diferenca_base r) \<and>
    (\<forall>a\<in>set (anexos_aliquotas d).
        \<not> (aa_anexo a = anexo c \<and> dec_le (receita_bruta_min a) (receita_bruta_12m c) \<and>
           dec_le (receita_bruta_12m c) (receita_bruta_max a))) \<longrightarrow>
      (\<exists>d1 c1 v. garantir_aliquota_efetiva d c = Inr (d1, c1, v) \<and>
         calcular_indev_para_resultado d r =
           Inr (update_resultado d1
                  (r\<lparr>pis_indev := None, cofins_indev := None, total_indev := None\<rparr>),
                r\<lparr>pis_indev := None, cofins_indev := None, total_indev := None\<rparr>)))"
proof (intro conjI impI)
  assume "aliquota_efetiva c = None \<and> dint (receita_bruta_12m c) = 0"
  then show "garantir_aliquota_efetiva d c =
        Inr (update_competencia d (c\<lparr>aliquota_efetiva := Some dec_zero\<rparr>),
             c\<lparr>aliquota_efetiva := Some dec_zero\<rparr>, dec_zero)"
    by (simp add: garantir_aliquota_efetiva_def Let_def dec_eq_zero_iff dint_or_zero)
next
  assume h: "find (\<lambda>c. comp_id c = competencia_id r) (competencias_pgdas d) = Some c \<and>
    dec_lt dec_zero (diferenca_base r) \<and>
    (\<forall>a\<in>set (anexos_aliquotas d).
        \<not> (aa_anexo a = anexo c \<and> dec_le (receita_bruta_min a) (receita_bruta_12m c) \<and>
           dec_le (receita_bruta_12m c) (receita_bruta_max a)))"
  from garantir_aliquota_efetiva_total [of d c] obtain d1 c1 v where
    g: "garantir_aliquota_efetiva d c = Inr (d1, c1, v)"
    and same: "anexos_aliquotas d1 = anexos_aliquotas d" "anexo c1 = anexo c"
      "receita_bruta_12m c1 = receita_bruta_12m c"
    by blast
  from h have "\<not> dec_le (diferenca_base r) dec_zero"
    by (simp add: dec_le_zero_iff dec_zero_lt_iff)
  then have pos: "\<not> dec_le (or_zero (diferenca_base r)) dec_zero"
    by (simp add: dec_le_or_zero_zero)
  from h same have nofaixa: "obter_anexo_aliquota_para_competencia d1 c1 = None"
    by (simp add: obter_anexo_aliquota_para_competencia_def Let_def find_None_iff_ball
        dec_le_or_zero_left dec_le_or_zero_right)
  from h g pos nofaixa have
    "calcular_indev_para_resultado d r =
       Inr (update_resultado d1
              (r\<lparr>pis_indev := None, cofins_indev := None, total_indev := None\<rparr>),
            r\<lparr>pis_indev := None, cofins_indev := None, total_indev := None\<rparr>)"
    by (simp add: calcular_indev_para_resultado_def Let_def set_indev_def)
  with g show "\<exists>d1 c1 v. garantir_aliquota_efetiva d c = Inr (d1, c1, v) \<and>
         calcular_indev_para_resultado d r =
           Inr (update_resultado d1
                  (r\<lparr>pis_indev := None, cofins_indev := None, total_indev := None\<rparr>),
                r\<lparr>pis_indev := None, cofins_indev := None, total_indev := None\<rparr>)"
    by blast
qed

text \<open>
  Scenario C of the specification: the example period with a trailing revenue of 0.00
  and no stored rate; the bracket of the example starts at 0.01.
\<close>

theorem zero_revenue_rate_and_missing_bracket_witness:
  "garantir_aliquota_efetiva
     (exemplo_db\<lparr>competencias_pgdas :=
        [exemplo_competencia\<lparr>receita_bruta_12m := \<lparr>dsign = False, dint = 0, dexp = - 2\<rparr>,
           aliquota_efetiva := None\<rparr>]\<rparr>)
     (exemplo_competencia\<lparr>receita_bruta_12m := \<lparr>dsign = False, dint = 0, dexp = - 2\<rparr>,
        aliquota_efetiva := None\<rparr>) =
   Inr (exemplo_db\<lparr>competencias_pgdas :=
          [exemplo_competencia\<lparr>receita_bruta_12m := \<lparr>dsign = False, dint = 0, dexp = - 2\<rparr>,
             aliquota_efetiva := Some dec_zero\<rparr>]\<rparr>,
        exemplo_competencia\<lparr>receita_bruta_12m := \<lparr>dsign = False, dint = 0, dexp = - 2\<rparr>,
          aliquota_efetiva := Some dec_zero\<rparr>,
        dec_zero) \<and>
   calcular_indev_para_resultado
     (exemplo_db\<lparr>competencias_pgdas :=
        [exemplo_competencia\<lparr>receita_bruta_12m := \<lparr>dsign = False, dint = 0, dexp = - 2\<rparr>,
           aliquota_efetiva := None\<rparr>]\<rparr>)
     exemplo_resultado =
   Inr (exemplo_db\<lparr>competencias_pgdas :=
          [exemplo_competencia\<lparr>receita_bruta_12m := \<lparr>dsign = False, dint = 0, dexp = - 2\<rparr>,
             aliquota_efetiva := Some dec_zero\<rparr>]\<rparr>,
        exemplo_resultado)"
  using zero_revenue_rate_and_missing_bracket
    [where c = "exemplo_competencia\<lparr>receita_bruta_12m := \<lparr>dsign = False, dint = 0, dexp = - 2\<rparr>,
                  aliquota_efetiva := None\<rparr>"
       and d = "exemplo_db\<lparr>competencias_pgdas :=
                  [exemplo_competencia\<lparr>receita_bruta_12m := \<lparr>dsign = False, dint = 0, dexp = - 2\<rparr>,
                     aliquota_efetiva := None\<rparr>]\<rparr>"
       and r = exemplo_resultado]
  by (auto simp: exemplo_db_def exemplo_competencia_def exemplo_resultado_def exemplo_anexo_def
      dec_zero_lt_iff dec_le_def dec_scaled_def update_competencia_def update_resultado_def)

section \<open>Properties of reconciliation\<close>

lemma fold_max_ge: "a \<le> fold max xs (a::nat)"
  by (induction xs arbitrary: a) (auto intro: order_trans [OF max.cobounded2])

lemma fold_max_upper: "x \<in> set xs \<Longrightarrow> x \<le> fold max xs (a::nat)"
proof (induction xs arbitrary: a)
  case Nil
  then show ?case by simp
next
  case (Cons y ys)
  show ?case
  proof (cases "x = y")
    case True
    have "y \<le> max y a" by simp
    also have "\<dots> \<le> fold max ys (max y a)" by (rule fold_max_ge)
    finally show ?thesis using True by simp
  next
    case False
    with Cons show ?thesis by simp
  qed
qed

lemma next_res_id_fresh: "x \<in> set rs \<Longrightarrow> res_id x < next_res_id rs"
  using fold_max_upper [of "res_id x" "map res_id rs" 0]
  by (simp add: next_res_id_def less_Suc_eq_le)

lemma next_res_id_notin: "next_res_id rs \<notin> res_id ` set rs"
  using next_res_id_fresh [of _ rs] by force

text \<open>
  C8, as the code has it. When reconciliation finds no summary for the company and the
  period, the new record has the two bases and the difference at \<open>Decimal(0)\<close> and the
  three impact fields null: the constructor is not given them, and they stay null until
  the estimation stage runs. The record is linked to the company and the period, has a
  key no other summary has, and is added at the end of the table.
\<close>

theorem new_summary_bases_zero_impacts_null:
  assumes "find (\<lambda>r. res_empresa_id r = e \<and> competencia_id r = comp_id c)
             (resultados_auditoria d) = None"
  shows "(let (d', novo) = get_or_create_resultado_auditoria d e c in
            base_monofasica_xml novo = dec_zero \<and> base_monofasica_pgdas novo = dec_zero \<and>
            diferenca_base novo = dec_zero \<and>
            pis_indev novo = None \<and> cofins_indev novo = None \<and> total_indev novo = None \<and>
            res_empresa_id novo = e \<and> competencia_id novo = comp_id c \<and>
            res_id novo \<notin> res_id ` set (resultados_auditoria d) \<and>
            resultados_auditoria d' = resultados_auditoria d @ [novo])"
  using assms next_res_id_notin [of "resultados_auditoria d"]
  by (simp add: get_or_create_resultado_auditoria_def Let_def)

theorem new_summary_bases_zero_impacts_null_witness:
  "get_or_create_resultado_auditoria (exemplo_db\<lparr>resultados_auditoria := []\<rparr>) 1
     exemplo_competencia =
   (exemplo_db\<lparr>resultados_auditoria :=
      [\<lparr>res_id = 1, res_empresa_id = 1, competencia_id = 1,
        base_monofasica_xml = dec_zero, base_monofasica_pgdas = dec_zero,
        diferenca_base = dec_zero, pis_indev = None, cofins_indev = None,
        total_indev = None\<rparr>]\<rparr>,
    \<lparr>res_id = 1, res_empresa_id = 1, competencia_id = 1,
      base_monofasica_xml = dec_zero, base_monofasica_pgdas = dec_zero,
      diferenca_base = dec_zero, pis_indev = None, cofins_indev = None,
      total_indev = None\<rparr>)"
  using new_summary_bases_zero_impacts_null
    [where d = "exemplo_db\<lparr>resultados_auditoria := []\<rparr>" and e = 1
       and c = exemplo_competencia]
  by (simp add: get_or_create_resultado_auditoria_def Let_def next_res_id_def
      exemplo_db_def exemplo_competencia_def)

text \<open>
  C8 as stated fails: the impact fields of a new summary are null, not zero.
\<close>

theorem new_summary_impacts_counterexample:
  "pis_indev (snd (get_or_create_resultado_auditoria
      (exemplo_db\<lparr>resultados_auditoria := []\<rparr>) 1 exemplo_competencia)) \<noteq> Some dec_zero \<and>
   cofins_indev (snd (get_or_create_resultado_auditoria
      (exemplo_db\<lparr>resultados_auditoria := []\<rparr>) 1 exemplo_competencia)) = None \<and>
   total_indev (snd (get_or_create_resultado_auditoria
      (exemplo_db\<lparr>resultados_auditoria := []\<rparr>) 1 exemplo_competencia)) = None"
  by (simp add: get_or_create_resultado_auditoria_def Let_def exemplo_db_def)

section \<open>Properties of declaration ingestion\<close>

lemma parse_decimal_error: "parse_decimal f v = Inl e \<Longrightarrow> e = ImportValueError"
  by (auto simp: parse_decimal_def Let_def split: option.splits if_splits)

lemma parse_decimal_or_zero_error:
  "parse_decimal_or_zero f v = Inl e \<Longrightarrow> e = ImportValueError"
  by (auto simp: parse_decimal_or_zero_def dest: parse_decimal_error
      split: sum.splits option.splits)

lemma atribuir_campos_error: "atribuir_campos f dados c = Inl e \<Longrightarrow> e = ImportValueError"
  unfolding atribuir_campos_def Let_def
  by (auto dest: parse_decimal_error parse_decimal_or_zero_error split: sum.splits)

lemma upsert_competencia_pgdas_error:
  "upsert_competencia_pgdas f dados s emp = Inl e \<Longrightarrow> e = ImportValueError"
  unfolding upsert_competencia_pgdas_def Let_def
  by (auto dest: atribuir_campos_error split: option.splits if_splits sum.splits)

lemma upsert_competencia_pgdas_sem_ano_mes:
  "dados ''ano_mes'' = None \<or> dados ''ano_mes'' = Some [] \<Longrightarrow>
     upsert_competencia_pgdas f dados s emp = Inl ImportValueError"
  by (auto simp: upsert_competencia_pgdas_def)

lemma upsert_linhas_sem_ano_mes:
  "\<exists>dados\<in>set linhas. dados ''ano_mes'' = None \<or> dados ''ano_mes'' = Some [] \<Longrightarrow>
     upsert_linhas f linhas s emp = Inl ImportValueError"
proof (induction linhas arbitrary: s)
  case Nil
  then show ?case by simp
next
  case (Cons dados resto)
  show ?case
  proof (cases "upsert_competencia_pgdas f dados s emp")
    case (Inl e)
    then show ?thesis using upsert_competencia_pgdas_error [OF Inl] by simp
  next
    case (Inr s')
    have "\<not> (dados ''ano_mes'' = None \<or> dados ''ano_mes'' = Some [])"
    proof
      assume "dados ''ano_mes'' = None \<or> dados ''ano_mes'' = Some []"
      from upsert_competencia_pgdas_sem_ano_mes
        [where dados = dados and f = f and s = s and emp = emp, OF this] Inr
      show False by simp
    qed
    with Cons.prems have "\<exists>x\<in>set resto. x ''ano_mes'' = None \<or> x ''ano_mes'' = Some []"
      by auto
    from Cons.IH [OF this] Inr show ?thesis by simp
  qed
qed

text \<open>
  C9, as the code has it. A row without the period token (absent or empty \<open>ano_mes\<close>)
  raises a \<open>ValueError\<close> that nothing catches: it ends the import of the whole file. The
  rows after it are not read, the changes of the rows before it are not committed, and
  the table of periods is as it was committed before the call.
\<close>

theorem missing_period_token_aborts_file:
  assumes "\<exists>dados\<in>set linhas. dados ''ano_mes'' = None \<or> dados ''ano_mes'' = Some []"
  shows "importar_pgdas_csv float_of linhas tabela empresa = (tabela, Some ImportValueError)"
  using upsert_linhas_sem_ano_mes
    [OF assms, of float_of "\<lparr>persistentes = tabela, novos = []\<rparr>" empresa]
  by (simp add: importar_pgdas_csv_def)

text \<open>
  A file whose second row has no token, imported over a table that holds January 2024:
  the table is unchanged, although the first row would have updated it.
\<close>

theorem missing_period_token_aborts_file_witness:
  "importar_pgdas_csv (\<lambda>s. None :: int option)
     [[''ano_mes'' \<mapsto> ''2024-01'', ''anexo'' \<mapsto> ''III''], [''anexo'' \<mapsto> ''I'']]
     [\<lparr>ci_empresa_id = 1, ci_ano_mes = ''2024-01'', ci_anexo = Some ''I'',
       ci_receita_bruta_total = 0, ci_receita_monofasica_declarada = 0,
       ci_receita_substituicao_tributaria = None, ci_receita_outras_exclusoes = None,
       ci_receita_bruta_12m = 0, ci_aliquota_nominal = None, ci_parcela_a_deduzir = None,
       ci_aliquota_efetiva = None\<rparr>]
     1 =
   ([\<lparr>ci_empresa_id = 1, ci_ano_mes = ''2024-01'', ci_anexo = Some ''I'',
       ci_receita_bruta_total = 0, ci_receita_monofasica_declarada = 0,
       ci_receita_substituicao_tributaria = None, ci_receita_outras_exclusoes = None,
       ci_receita_bruta_12m = 0, ci_aliquota_nominal = None, ci_parcela_a_deduzir = None,
       ci_aliquota_efetiva = None\<rparr>],
    Some ImportValueError)"
  using missing_period_token_aborts_file
    [where linhas = "[[''ano_mes'' \<mapsto> ''2024-01'', ''anexo'' \<mapsto> ''III''], [''anexo'' \<mapsto> ''I'']]"
       and float_of = "\<lambda>s. None :: int option" and empresa = 1]
  by simp

text \<open>
  C9 as stated fails: of three rows for January, no period and March, imported into an
  empty table, none is ingested, while the first and the third alone are both ingested.
\<close>

theorem missing_period_token_counterexample:
  "importar_pgdas_csv (\<lambda>s. None :: int option)
     [[''ano_mes'' \<mapsto> ''2024-01'', ''anexo'' \<mapsto> ''I''],
      [''anexo'' \<mapsto> ''I''],
      [''ano_mes'' \<mapsto> ''2024-03'', ''anexo'' \<mapsto> ''I'']] [] 1 =
   ([], Some ImportValueError) \<and>
   map ci_ano_mes (fst (importar_pgdas_csv (\<lambda>s. None :: int option)
     [[''ano_mes'' \<mapsto> ''2024-01'', ''anexo'' \<mapsto> ''I''],
      [''ano_mes'' \<mapsto> ''2024-03'', ''anexo'' \<mapsto> ''I'']] [] 1)) =
   [''2024-01'', ''2024-03'']"
  by (simp add: importar_pgdas_csv_def upsert_competencia_pgdas_def atribuir_campos_def
      parse_decimal_or_zero_def parse_decimal_def Let_def)


section \<open>Period tokens\<close>


lemma of_char_digit_char: "(of_char (digit_char n) :: nat) = 48 + n mod 10"
  by (simp add: digit_char_def)

lemma is_digit_digit_char: "is_digit (digit_char n)"
  by (simp add: is_digit_def of_char_digit_char)

lemma digit_val_digit_char: "digit_val (digit_char n) = n mod 10"
  by (simp add: digit_val_def of_char_digit_char)

lemma not_space_digit_char: "\<not> is_space_int (digit_char n)"
  apply (simp add: is_space_int_def of_char_digit_char Let_def)
  apply presburger
  done

lemma digit_char_neq: "(of_char c :: nat) < 48 \<Longrightarrow> digit_char n \<noteq> c"
  using of_char_digit_char [of n] by auto

lemma digit_char_neq_sign: "digit_char n \<noteq> CHR ''-''" "digit_char n \<noteq> CHR ''+''"
  by (rule digit_char_neq, simp)+

lemma split_on_token:
  "split_on CHR ''-'' (strftime_year_month zero_pad y m) =
     [strftime_year zero_pad y, [digit_char (m div 10), digit_char m]]"
  by (simp add: strftime_year_month_def strftime_year_def digit_char_neq_sign)

lemma nat_literal_short:
  "length s \<le> 4 \<Longrightarrow>
     nat_literal s =
       (case s of [] \<Rightarrow> None | c # cs \<Rightarrow> if is_digit c then int_digits cs (digit_val c) else None)"
proof -
  assume "length s \<le> 4"
  moreover have "length (filter is_digit s) \<le> length s" by simp
  ultimately have "\<not> 4300 < length (filter is_digit s)" by linarith
  then show ?thesis by (simp add: nat_literal_def)
qed

lemma strip_int_digits:
  "strip_int (digit_char a # cs @ [digit_char b]) = digit_char a # cs @ [digit_char b]"
  "strip_int [digit_char a] = [digit_char a]"
  by (simp_all add: strip_int_def not_space_digit_char)

lemma py_int_4: "py_int [digit_char a, digit_char b, digit_char c, digit_char d] =
   Some (int (a mod 10 * 1000 + b mod 10 * 100 + c mod 10 * 10 + d mod 10))"
  using strip_int_digits(1) [of a "[digit_char b, digit_char c]" d]
  by (simp add: py_int_def digit_char_neq_sign nat_literal_short is_digit_digit_char
      digit_val_digit_char)

lemma py_int_3: "py_int [digit_char b, digit_char c, digit_char d] =
   Some (int (b mod 10 * 100 + c mod 10 * 10 + d mod 10))"
  using strip_int_digits(1) [of b "[digit_char c]" d]
  by (simp add: py_int_def digit_char_neq_sign nat_literal_short is_digit_digit_char
      digit_val_digit_char)

lemma py_int_2: "py_int [digit_char c, digit_char d] = Some (int (c mod 10 * 10 + d mod 10))"
  using strip_int_digits(1) [of c "[]" d]
  by (simp add: py_int_def digit_char_neq_sign nat_literal_short is_digit_digit_char
      digit_val_digit_char)

lemma py_int_1: "py_int [digit_char d] = Some (int (d mod 10))"
  by (simp add: py_int_def strip_int_digits digit_char_neq_sign nat_literal_short
      is_digit_digit_char digit_val_digit_char)


lemma div10_step: "(y::nat) = 10 * (y div 10) + y mod 10"
  by simp

lemma digits_general:
  "(y::nat) = y div 1000 * 1000 + y div 100 mod 10 * 100 + y div 10 mod 10 * 10 + y mod 10"
proof -
  have a: "y div 10 div 10 = y div 100" and b: "y div 100 div 10 = y div 1000"
    by (simp_all add: div_mult2_eq [symmetric])
  from div10_step [of y] div10_step [of "y div 10"] div10_step [of "y div 100"]
  show ?thesis unfolding a b by linarith
qed

lemma digits4: "y \<le> 9999 \<Longrightarrow>
    (y div 1000) mod 10 * 1000 + (y div 100) mod 10 * 100 + (y div 10) mod 10 * 10 + y mod 10 = (y::nat)"
proof -
  assume "y \<le> 9999"
  then have "y div 1000 < 10" by simp
  then have "(y div 1000) mod 10 = y div 1000" by simp
  with digits_general [of y] show ?thesis by simp
qed

lemma digits3: "y < 1000 \<Longrightarrow>
    (y div 100) mod 10 * 100 + (y div 10) mod 10 * 10 + y mod 10 = (y::nat)"
proof -
  assume "y < 1000"
  then have "y div 1000 = 0" by simp
  with digits_general [of y] show ?thesis by simp
qed

lemma digits2: "y < 100 \<Longrightarrow> (y div 10) mod 10 * 10 + y mod 10 = (y::nat)"
proof -
  assume "y < 100"
  then have "y div 10 < 10" by simp
  then have "(y div 10) mod 10 = y div 10" by simp
  then show ?thesis by simp
qed

lemma py_int_year:
  assumes "y \<le> 9999"
  shows "py_int (strftime_year zero_pad y) = Some (int y)"
proof (cases "zero_pad \<or> 1000 \<le> y")
  case True
  then have "strftime_year zero_pad y =
      [digit_char (y div 1000), digit_char (y div 100), digit_char (y div 10), digit_char y]"
    by (simp only: strftime_year_def if_True)
  then show ?thesis by (simp only: py_int_4 digits4 [OF assms])
next
  case big: False
  then have lt: "y < 1000" by simp
  show ?thesis
  proof (cases "100 \<le> y")
    case True
    with big have "strftime_year zero_pad y =
        [digit_char (y div 100), digit_char (y div 10), digit_char y]"
      by (simp only: strftime_year_def if_True if_False)
    then show ?thesis by (simp only: py_int_3 digits3 [OF lt])
  next
    case c: False
    then have lt2: "y < 100" by simp
    show ?thesis
    proof (cases "10 \<le> y")
      case True
      with big c have "strftime_year zero_pad y = [digit_char (y div 10), digit_char y]"
        by (simp only: strftime_year_def if_True if_False)
      then show ?thesis by (simp only: py_int_2 digits2 [OF lt2])
    next
      case False
      with big c have "strftime_year zero_pad y = [digit_char y]"
        by (simp only: strftime_year_def if_True if_False)
      moreover from False have "y < 10" by simp
      ultimately show ?thesis by (simp only: py_int_1 mod_less)
    qed
  qed
qed

lemma py_int_month:
  assumes "m \<le> 99"
  shows "py_int [digit_char (m div 10), digit_char m] = Some (int m)"
proof -
  from assms have lt: "m < 100" by linarith
  have "Some (int (m div 10 mod 10 * 10 + m mod 10)) = Some (int m)"
    by (subst digits2 [OF lt]) (rule refl)
  then show ?thesis by (rule trans [OF py_int_2])
qed



text \<open>The interval of a formatted token is defined, up to November 9999.\<close>

lemma intervalo_strftime:
  assumes "1 \<le> y" "y \<le> 9999" "1 \<le> m" "m \<le> 12" "m = 12 \<longrightarrow> y < 9999"
  shows "\<exists>x. intervalo_datas_competencia (strftime_year_month zero_pad y m) = Inr x"
proof -
  from assms have m: "m \<le> 99" by simp
  have "intervalo_datas_competencia (strftime_year_month zero_pad y m) =
     (if \<not> valid_year_month (int y) (int m) then Inl ValueError
      else if int m = 12 then
        (if valid_year_month (int y + 1) 1
         then Inr (first_of_month (nat (int y)) (nat (int m)), first_of_month (nat (int y + 1)) 1)
         else Inl ValueError)
      else Inr (first_of_month (nat (int y)) (nat (int m)),
                first_of_month (nat (int y)) (nat (int m + 1))))"
    by (simp only: intervalo_datas_competencia_def split_on_token py_int_year [OF assms(2)]
        py_int_month [OF m] list.case option.case)
  moreover have "valid_year_month (int y) (int m)"
    using assms by (simp add: valid_year_month_def)
  moreover have "int m = 12 \<Longrightarrow> valid_year_month (int y + 1) 1"
    using assms by (simp add: valid_year_month_def)
  ultimately show ?thesis by (cases "int m = 12") simp_all
qed


text \<open>Every token of a range that was generated without error has its interval.\<close>

lemma gerar_desde_tokens:
  "gerar_desde zero_pad y m fy fm = Inr ps \<Longrightarrow> 1 \<le> y \<Longrightarrow> y \<le> 9999 \<Longrightarrow>
     \<forall>am\<in>set ps. \<exists>x. intervalo_datas_competencia am = Inr x"
proof (induction zero_pad y m fy fm arbitrary: ps rule: gerar_desde.induct)
  case (1 zero_pad y m fy fm)
  note eq = gerar_desde.simps [of zero_pad y m fy fm]
  show ?case
  proof (cases "m < 1 \<or> 12 < m")
    case True
    with "1.prems" show ?thesis unfolding eq by simp
  next
    case valid: False
    show ?thesis
    proof (cases "y < fy \<or> (y = fy \<and> m \<le> fm)")
      case False
      with valid "1.prems" show ?thesis unfolding eq by simp
    next
      case inside: True
      show ?thesis
      proof (cases "m = 12")
        case True
        with valid inside "1.prems"(1) have y: "\<not> 9999 < y + 1"
          unfolding eq by (auto split: if_splits)
        with True valid inside "1.prems"(1) obtain rest where
          rest: "gerar_desde zero_pad (y + 1) 1 fy fm = Inr rest" "ps = strftime_year_month zero_pad y m # rest"
          unfolding eq by (auto split: sum.splits)
        from "1.IH"(1) [OF valid inside True y rest(1)] y
        have "\<forall>am\<in>set rest. \<exists>x. intervalo_datas_competencia am = Inr x" by simp
        moreover have "\<exists>x. intervalo_datas_competencia (strftime_year_month zero_pad y m) = Inr x"
          using intervalo_strftime [of y m zero_pad] "1.prems" y True by simp
        ultimately show ?thesis using rest(2) by simp
      next
        case False
        with valid inside "1.prems"(1) obtain rest where
          rest: "gerar_desde zero_pad y (m + 1) fy fm = Inr rest" "ps = strftime_year_month zero_pad y m # rest"
          unfolding eq by (auto split: sum.splits)
        from "1.IH"(2) [OF valid inside False rest(1)] "1.prems"
        have "\<forall>am\<in>set rest. \<exists>x. intervalo_datas_competencia am = Inr x" by simp
        moreover have "\<exists>x. intervalo_datas_competencia (strftime_year_month zero_pad y m) = Inr x"
          using intervalo_strftime [of y m zero_pad] "1.prems" valid False by simp
        ultimately show ?thesis using rest(2) by simp
      qed
    qed
  qed
qed

lemma digit_val_le_9: "is_digit c \<Longrightarrow> digit_val c \<le> 9"
  unfolding is_digit_def digit_val_def by linarith

lemma strptime_year_month_range:
  "strptime_year_month s = Inr (y, m) \<Longrightarrow> 1 \<le> y \<and> y \<le> 9999"
  unfolding strptime_year_month_def Let_def
  by (auto split: list.splits if_splits option.splits dest!: digit_val_le_9)

lemma gerar_intervalo_competencias_tokens:
  assumes "gerar_intervalo_competencias zero_pad ini fim = Inr ps"
  shows "\<forall>am\<in>set ps. \<exists>x. intervalo_datas_competencia am = Inr x"
proof -
  from assms obtain y m fy fm where
    p: "strptime_year_month ini = Inr (y, m)" and g: "gerar_desde zero_pad y m fy fm = Inr ps"
    by (auto simp: gerar_intervalo_competencias_def split: sum.splits)
  from strptime_year_month_range [OF p] gerar_desde_tokens [OF g] show ?thesis by simp
qed
section \<open>What each stage leaves untouched\<close>

lemma classificar_itens_defined:
  "intervalo_datas_competencia am = Inr x \<Longrightarrow>
     \<exists>d' k. classificar_itens_empresa_competencia d e am = Inr (d', k)"
  by (cases x) (simp add: classificar_itens_empresa_competencia_def)

lemma flags_ok_classify: "flags_ok (classify tabela item data)"
  by (simp add: flags_ok_def classify_def classificar_item_def Let_def)

lemma classificar_itens_flags:
  assumes "classificar_itens_empresa_competencia d e am = Inr (d', k)" and "db_flags_ok d"
  shows "db_flags_ok d'"
proof (cases "intervalo_datas_competencia am")
  case (Inl err)
  with assms(1) show ?thesis by (simp add: classificar_itens_empresa_competencia_def)
next
  case (Inr x)
  obtain ini fim where x: "x = (ini, fim)" by (cases x)
  from assms(1) Inr x have
    d': "notas_fiscais d' =
           map (\<lambda>n. if nota_na_competencia e ini fim n
                     then classificar_nota (ncm_monofasicos d) n else n)
               (notas_fiscais d)"
    by (auto simp: classificar_itens_empresa_competencia_def)
  have "\<forall>item\<in>set (itens n'). flags_ok item" if "n' \<in> set (notas_fiscais d')" for n'
  proof -
    from that d' obtain n where n: "n \<in> set (notas_fiscais d)"
      "n' = (if nota_na_competencia e ini fim n
             then classificar_nota (ncm_monofasicos d) n else n)"
      by auto
    show ?thesis
    proof (cases "nota_na_competencia e ini fim n")
      case True
      with n show ?thesis by (auto simp: classificar_nota_def flags_ok_classify)
    next
      case False
      with n assms(2) show ?thesis by (simp add: db_flags_ok_def)
    qed
  qed
  then show ?thesis by (simp add: db_flags_ok_def)
qed

lemma get_or_create_notas:
  assumes "get_or_create_resultado_auditoria d e c = (d', r)"
  shows "notas_fiscais d' = notas_fiscais d"
proof -
  have "notas_fiscais (fst (get_or_create_resultado_auditoria d e c)) = notas_fiscais d"
    by (simp add: get_or_create_resultado_auditoria_def Let_def split: option.splits)
  with assms show ?thesis by simp
qed

lemma cruzar_competencia_sem_declaracao:
  "find (\<lambda>c. comp_empresa_id c = e \<and> ano_mes c = am) (competencias_pgdas d) = None \<Longrightarrow>
     cruzar_competencia soma_sql d e am = Inr (d, None)"
  by (simp add: cruzar_competencia_def)

lemma cruzar_competencia_com_declaracao:
  assumes "find (\<lambda>c. comp_empresa_id c = e \<and> ano_mes c = am) (competencias_pgdas d) = Some c"
    and "calcular_base_monofasica_xml soma_sql d e am = Inr base_xml"
    and "get_or_create_resultado_auditoria d e c = (d1, r)"
  shows "cruzar_competencia soma_sql d e am =
           Inr (update_resultado d1
                  (r\<lparr>base_monofasica_xml := base_xml,
                     base_monofasica_pgdas := or_zero (receita_monofasica_declarada c),
                     diferenca_base :=
                       dec_sub base_xml (or_zero (receita_monofasica_declarada c))\<rparr>),
                Some (r\<lparr>base_monofasica_xml := base_xml,
                     base_monofasica_pgdas := or_zero (receita_monofasica_declarada c),
                     diferenca_base :=
                       dec_sub base_xml (or_zero (receita_monofasica_declarada c))\<rparr>))"
  using assms by (simp add: cruzar_competencia_def Let_def)

lemma cruzar_competencia_erro:
  assumes "find (\<lambda>c. comp_empresa_id c = e \<and> ano_mes c = am) (competencias_pgdas d) = Some c"
    and "calcular_base_monofasica_xml soma_sql d e am = Inl err"
  shows "cruzar_competencia soma_sql d e am = Inl err"
  using assms by (simp add: cruzar_competencia_def)

lemma cruzar_competencia_notas:
  assumes "cruzar_competencia soma_sql d e am = Inr (d', r)"
  shows "notas_fiscais d' = notas_fiscais d"
proof (cases "find (\<lambda>c. comp_empresa_id c = e \<and> ano_mes c = am) (competencias_pgdas d)")
  case None
  from cruzar_competencia_sem_declaracao [OF None, of soma_sql] assms show ?thesis by simp
next
  case (Some c)
  show ?thesis
  proof (cases "calcular_base_monofasica_xml soma_sql d e am")
    case (Inl err)
    from cruzar_competencia_erro [OF Some Inl] assms show ?thesis by simp
  next
    case (Inr base_xml)
    obtain d1 r1 where g: "get_or_create_resultado_auditoria d e c = (d1, r1)"
      by (cases "get_or_create_resultado_auditoria d e c") blast
    from cruzar_competencia_com_declaracao [OF Some Inr g] assms
    have "d' = update_resultado d1
                  (r1\<lparr>base_monofasica_xml := base_xml,
                     base_monofasica_pgdas := or_zero (receita_monofasica_declarada c),
                     diferenca_base :=
                       dec_sub base_xml (or_zero (receita_monofasica_declarada c))\<rparr>)"
      by simp
    then have "notas_fiscais d' = notas_fiscais d1" by (simp add: update_resultado_def)
    with get_or_create_notas [OF g] show ?thesis by simp
  qed
qed

lemma calcular_base_monofasica_xml_defined:
  "intervalo_datas_competencia am = Inr x \<Longrightarrow>
     \<exists>b. calcular_base_monofasica_xml soma_sql d e am = Inr b"
  by (cases x) (simp add: calcular_base_monofasica_xml_def)

lemma cruzar_competencia_defined:
  assumes "intervalo_datas_competencia am = Inr x"
  shows "\<exists>d' r. cruzar_competencia soma_sql d e am = Inr (d', r)"
proof (cases "find (\<lambda>c. comp_empresa_id c = e \<and> ano_mes c = am) (competencias_pgdas d)")
  case None
  from cruzar_competencia_sem_declaracao [OF None] show ?thesis by blast
next
  case (Some c)
  from calcular_base_monofasica_xml_defined [OF assms] obtain b where
    b: "calcular_base_monofasica_xml soma_sql d e am = Inr b" by blast
  obtain d1 r1 where g: "get_or_create_resultado_auditoria d e c = (d1, r1)"
    by (cases "get_or_create_resultado_auditoria d e c") blast
  from cruzar_competencia_com_declaracao [OF Some b g] show ?thesis by blast
qed

lemma calcular_indev_para_resultado_defined:
  "\<exists>d' r'. calcular_indev_para_resultado d r = Inr (d', r') \<and>
      notas_fiscais d' = notas_fiscais d"
proof (cases "find (\<lambda>c. comp_id c = competencia_id r) (competencias_pgdas d)")
  case None
  then show ?thesis by (simp add: calcular_indev_para_resultado_def)
next
  case (Some c)
  from garantir_aliquota_efetiva_total [of d c] obtain d1 c1 v where
    g: "garantir_aliquota_efetiva d c = Inr (d1, c1, v)" "notas_fiscais d1 = notas_fiscais d"
    by blast
  show ?thesis
  proof (cases "dec_le (or_zero (diferenca_base r)) dec_zero")
    case True
    with Some show ?thesis
      by (simp add: calcular_indev_para_resultado_def Let_def update_resultado_def)
  next
    case False
    show ?thesis
    proof (cases "obter_anexo_aliquota_para_competencia d1 c1")
      case None
      with Some False g show ?thesis
        by (simp add: calcular_indev_para_resultado_def Let_def update_resultado_def)
    next
      case (Some a)
      with \<open>find (\<lambda>c. comp_id c = competencia_id r) (competencias_pgdas d) = Some c\<close> False g
      show ?thesis
        by (simp add: calcular_indev_para_resultado_def Let_def update_resultado_def)
    qed
  qed
qed

lemma calcular_indev_para_competencia_defined:
  "\<exists>d' r'. calcular_indev_para_competencia d e am = Inr (d', r') \<and>
      notas_fiscais d' = notas_fiscais d"
proof (cases "find (\<lambda>r. res_empresa_id r = e \<and>
                      list_ex (\<lambda>c. comp_id c = competencia_id r \<and> ano_mes c = am)
                        (competencias_pgdas d))
             (resultados_auditoria d)")
  case None
  then show ?thesis by (simp add: calcular_indev_para_competencia_def)
next
  case (Some r)
  from calcular_indev_para_resultado_defined [of d r] obtain d' r' where
    "calcular_indev_para_resultado d r = Inr (d', r')" "notas_fiscais d' = notas_fiscais d"
    by blast
  with Some show ?thesis by (simp add: calcular_indev_para_competencia_def)
qed

lemma processar_competencia_defined:
  assumes "intervalo_datas_competencia am = Inr x"
  shows "\<exists>d'. processar_competencia soma_sql d e am = Inr d'"
proof -
  from classificar_itens_defined [OF assms] obtain d1 k where
    a: "classificar_itens_empresa_competencia d e am = Inr (d1, k)" by blast
  from cruzar_competencia_defined [OF assms] obtain d2 r where
    b: "cruzar_competencia soma_sql d1 e am = Inr (d2, r)" by blast
  from calcular_indev_para_competencia_defined obtain d3 r' where
    c: "calcular_indev_para_competencia d2 e am = Inr (d3, r')" by blast
  from a b c show ?thesis by (simp add: processar_competencia_def)
qed

lemma processar_competencia_flags:
  assumes "processar_competencia soma_sql d e am = Inr d'" and "db_flags_ok d"
  shows "db_flags_ok d'"
proof -
  from assms(1) obtain d1 k where
    a: "classificar_itens_empresa_competencia d e am = Inr (d1, k)"
    by (cases "classificar_itens_empresa_competencia d e am")
      (auto simp: processar_competencia_def)
  from assms(1) a obtain d2 r where
    b: "cruzar_competencia soma_sql d1 e am = Inr (d2, r)"
    by (cases "cruzar_competencia soma_sql d1 e am") (auto simp: processar_competencia_def)
  from assms(1) a b obtain r' where
    c: "calcular_indev_para_competencia d2 e am = Inr (d', r')"
    by (cases "calcular_indev_para_competencia d2 e am") (auto simp: processar_competencia_def)
  from calcular_indev_para_competencia_defined [of d2 e am] c
  have "notas_fiscais d' = notas_fiscais d2" by auto
  with cruzar_competencia_notas [OF b] have "notas_fiscais d' = notas_fiscais d1" by simp
  with classificar_itens_flags [OF a assms(2)] show ?thesis by (simp add: db_flags_ok_def)
qed

lemma processar_competencias_flags:
  "processar_competencias soma_sql d e ps = Inr d' \<Longrightarrow> db_flags_ok d \<Longrightarrow> db_flags_ok d'"
proof (induction ps arbitrary: d)
  case Nil
  then show ?case by simp
next
  case (Cons am ps)
  from Cons.prems(1) obtain d1 where
    s: "processar_competencia soma_sql d e am = Inr d1"
    and r: "processar_competencias soma_sql d1 e ps = Inr d'"
    by (cases "processar_competencia soma_sql d e am") auto
  from processar_competencia_flags [OF s Cons.prems(2)] have "db_flags_ok d1" .
  from Cons.IH [OF r this] show ?case .
qed

lemma processar_competencias_defined:
  "\<forall>am\<in>set ps. \<exists>x. intervalo_datas_competencia am = Inr x \<Longrightarrow>
     \<exists>d'. processar_competencias soma_sql d e ps = Inr d'"
proof (induction ps arbitrary: d)
  case Nil
  then show ?case by simp
next
  case (Cons am ps)
  then obtain x where "intervalo_datas_competencia am = Inr x" by auto
  from processar_competencia_defined [OF this] obtain d1 where
    "processar_competencia soma_sql d e am = Inr d1" by blast
  with Cons show ?case by simp
qed

lemma processar_competencias_append:
  "processar_competencias soma_sql d e (ps @ qs) =
     (case processar_competencias soma_sql d e ps of
        Inl err \<Rightarrow> Inl err
      | Inr d1 \<Rightarrow> processar_competencias soma_sql d1 e qs)"
  by (induction ps arbitrary: d) (auto split: sum.splits)

end
